theory Spec2Isabelle
  imports Complex_Main
begin

section \<open>Data model of FieldIO.cpp\<close>

text \<open>
  The two exported functions of \<^verbatim>\<open>src/exec/NeighborList/FieldIO.cpp\<close> are
  \<^verbatim>\<open>WritePlotFile\<close> and \<^verbatim>\<open>WriteParticlesVTK\<close>. Both only read their
  arguments and talk to the outside world (the AMReX writers, the standard output of
  \<^verbatim>\<open>amrex::Print\<close>, one \<^verbatim>\<open>std::ofstream\<close>), so the embedding passes the outside
  world explicitly.

  Conventions.
  \<^item> \<^verbatim>\<open>amrex::Real\<close> values are only copied and printed, never computed with: they are
    a type parameter \<open>'r\<close>, and \<open>fmt :: 'r \<Rightarrow> string\<close> stands for
    \<^verbatim>\<open>operator<<\<close> of the output stream on such a value.
  \<^item> \<^verbatim>\<open>int\<close>, \<^verbatim>\<open>amrex::Long\<close> and \<^verbatim>\<open>std::size_t\<close> are \<open>int\<close> and \<open>nat\<close>
    without a width. Overflow of the signed counters is undefined behaviour in C++, and
    a population whose nine host vectors fit in memory has far fewer than \<open>2 ^ 63\<close>
    particles, a geometry sequence far fewer than \<open>2 ^ 31\<close> levels.
  \<^item> An index into an \<^verbatim>\<open>amrex::Vector\<close> in the write loops is checked: out of range
    is the fault \<open>OutOfBounds\<close>, not a value.
\<close>

subsection \<open>Particles, tiles, levels, the container\<close>

text \<open>\<^verbatim>\<open>ParticleType\<close>: \<^verbatim>\<open>part.pos(d)\<close> and \<^verbatim>\<open>part.rdata(k)\<close>.\<close>

record 'r Particle =
  pos :: "nat \<Rightarrow> 'r"
  rdata :: "nat \<Rightarrow> 'r"

text \<open>
  The array of structs of a tile, as the code reads it: \<^verbatim>\<open>aos.numParticles()\<close> and
  the pointer \<^verbatim>\<open>aos().dataPtr()\<close>, indexed as \<^verbatim>\<open>p[i]\<close>.
\<close>

record 'r ArrayOfStructs =
  numParticles :: nat
  dataPtr :: "nat \<Rightarrow> 'r Particle"

record 'r ParticleTile =
  GetArrayOfStructs :: "'r ArrayOfStructs"

text \<open>
  \<^verbatim>\<open>pc.GetParticles(lev)\<close> is a map from the tile's index pair to the tile; the
  range-for loop visits its entries in the map's order, so a level is the list of its
  entries \<^verbatim>\<open>kv\<close> in that order.
\<close>

type_synonym 'r ParticleLevel = "((int \<times> int) \<times> 'r ParticleTile) list"

record 'r MDParticleContainer =
  finestLevel :: int
  GetParticles :: "int \<Rightarrow> 'r ParticleLevel"

text \<open>
  Modelled from the spec: the enumeration \<^verbatim>\<open>PIdx\<close> of \<^verbatim>\<open>MDParticleContainer.H\<close>,
  which is not among the sources. The spec: six real-valued attribute slots "assigned by
  fixed symbolic index: velocity x/y/z then acceleration x/y/z".
\<close>

definition PIdx_vx :: nat where "PIdx_vx = 0"
definition PIdx_vy :: nat where "PIdx_vy = 1"
definition PIdx_vz :: nat where "PIdx_vz = 2"
definition PIdx_ax :: nat where "PIdx_ax = 3"
definition PIdx_ay :: nat where "PIdx_ay = 4"
definition PIdx_az :: nat where "PIdx_az = 5"
definition PIdx_ncomps :: nat where "PIdx_ncomps = 6"

subsection \<open>Text output\<close>

text \<open>Decimal output of an integer by \<^verbatim>\<open>operator<<\<close>.\<close>

fun show_nat :: "nat \<Rightarrow> string" where
  "show_nat n =
     (if n < 10 then [''0123456789'' ! n]
      else show_nat (n div 10) @ [''0123456789'' ! (n mod 10)])"

declare show_nat.simps [simp del]

definition show_int :: "int \<Rightarrow> string" where
  "show_int i = (if i < 0 then ''-'' @ show_nat (nat (- i)) else show_nat (nat i))"

text \<open>
  Modelled from the spec: \<^verbatim>\<open>amrex::Concatenate(rootname, num, mindigits)\<close> of the AMReX
  library, which is not among the sources. The spec: the name "encodes the step index
  as a fixed-width, zero-padded decimal (5 digits) prefixed by a literal tag". The
  number is printed in decimal and padded on the left with \<open>0\<close> up to the width; a
  longer number is not cut.
\<close>

definition Concatenate :: "string \<Rightarrow> int \<Rightarrow> int \<Rightarrow> string" where
  "Concatenate rootname num mindigits =
     rootname @ replicate (nat mindigits - length (show_int num)) (CHR ''0'') @ show_int num"

text \<open>
  The world outside, as one process sees it: what \<^verbatim>\<open>amrex::Print\<close> has printed, the
  files by name, and whether an \<^verbatim>\<open>std::ofstream\<close> opened on a name is \<^verbatim>\<open>good()\<close>.
\<close>

record world =
  stdout :: string
  files :: "string \<Rightarrow> string option"
  ofstream_good :: "string \<Rightarrow> bool"

definition Print :: "string \<Rightarrow> world \<Rightarrow> world" where
  "Print s w = w\<lparr>stdout := stdout w @ s\<rparr>"

datatype fault = OutOfBounds

text \<open>\<^verbatim>\<open>data[i]\<close> on an \<^verbatim>\<open>amrex::Vector\<close> with an \<^verbatim>\<open>amrex::Long\<close> index.\<close>

definition Vector_at :: "'a list \<Rightarrow> int \<Rightarrow> 'a option" where
  "Vector_at data i = (if 0 \<le> i \<and> i < int (length data) then Some (data ! nat i) else None)"

definition push_back :: "'a list \<Rightarrow> 'a \<Rightarrow> 'a list" where
  "push_back v x = v @ [x]"

section \<open>WriteParticlesVTK\<close>

subsection \<open>1. Count total number of particles across all levels\<close>

text \<open>The loop over the tiles \<^verbatim>\<open>kv\<close> of one level (source lines 100 to 103).\<close>

fun count_tiles :: "'r ParticleLevel \<Rightarrow> int \<Rightarrow> int" where
  "count_tiles [] np_total = np_total"
| "count_tiles (kv # plev) np_total =
     (let ptile = snd kv
      in count_tiles plev (np_total + int (numParticles (GetArrayOfStructs ptile))))"

text \<open>The loop \<^verbatim>\<open>for (lev = 0; lev <= finest_level; ++lev)\<close> (source lines 98 to 104).\<close>

function count_levels :: "'r MDParticleContainer \<Rightarrow> int \<Rightarrow> int \<Rightarrow> int \<Rightarrow> int" where
  "count_levels pc finest_level lev np_total =
     (if lev \<le> finest_level
      then count_levels pc finest_level (lev + 1) (count_tiles (GetParticles pc lev) np_total)
      else np_total)"
  by pat_completeness auto
termination
  by (relation "measure (\<lambda>(pc, finest_level, lev, np_total). nat (finest_level + 1 - lev))") auto

declare count_levels.simps [simp del]

subsection \<open>2. Collect particle data into host vectors\<close>

record 'r host_vectors =
  vec_xs :: "'r list"
  vec_ys :: "'r list"
  vec_zs :: "'r list"
  vec_vxs :: "'r list"
  vec_vys :: "'r list"
  vec_vzs :: "'r list"
  vec_axs :: "'r list"
  vec_ays :: "'r list"
  vec_azs :: "'r list"

text \<open>The nine vectors as declared: empty (\<^verbatim>\<open>reserve\<close> changes no content).\<close>

definition empty_vectors :: "'r host_vectors" where
  "empty_vectors =
     \<lparr>vec_xs = [], vec_ys = [], vec_zs = [], vec_vxs = [], vec_vys = [], vec_vzs = [],
      vec_axs = [], vec_ays = [], vec_azs = []\<rparr>"

text \<open>The body of the innermost loop (source lines 132 to 144).\<close>

definition collect_particle :: "'r Particle \<Rightarrow> 'r host_vectors \<Rightarrow> 'r host_vectors" where
  "collect_particle part hv =
     \<lparr>vec_xs = push_back (vec_xs hv) (pos part 0),
      vec_ys = push_back (vec_ys hv) (pos part 1),
      vec_zs = push_back (vec_zs hv) (pos part 2),
      vec_vxs = push_back (vec_vxs hv) (rdata part PIdx_vx),
      vec_vys = push_back (vec_vys hv) (rdata part PIdx_vy),
      vec_vzs = push_back (vec_vzs hv) (rdata part PIdx_vz),
      vec_axs = push_back (vec_axs hv) (rdata part PIdx_ax),
      vec_ays = push_back (vec_ays hv) (rdata part PIdx_ay),
      vec_azs = push_back (vec_azs hv) (rdata part PIdx_az)\<rparr>"

text \<open>The loop \<^verbatim>\<open>for (i = 0; i < np; ++i)\<close> over \<^verbatim>\<open>p[i]\<close> (source lines 131 to 145).\<close>

function collect_tile ::
  "(nat \<Rightarrow> 'r Particle) \<Rightarrow> nat \<Rightarrow> nat \<Rightarrow> 'r host_vectors \<Rightarrow> 'r host_vectors" where
  "collect_tile p np i hv =
     (if i < np then collect_tile p np (i + 1) (collect_particle (p i) hv) else hv)"
  by pat_completeness auto
termination
  by (relation "measure (\<lambda>(p, np, i, hv). np - i)") auto

declare collect_tile.simps [simp del]

text \<open>The loop over the tiles of one level (source lines 124 to 146).\<close>

fun collect_tiles :: "'r ParticleLevel \<Rightarrow> 'r host_vectors \<Rightarrow> 'r host_vectors" where
  "collect_tiles [] hv = hv"
| "collect_tiles (kv # plev) hv =
     (let ptile = snd kv;
          aos = GetArrayOfStructs ptile;
          np = numParticles aos;
          p = dataPtr aos
      in collect_tiles plev (collect_tile p np 0 hv))"

text \<open>The loop over the levels (source lines 122 to 147).\<close>

function collect_levels ::
  "'r MDParticleContainer \<Rightarrow> int \<Rightarrow> int \<Rightarrow> 'r host_vectors \<Rightarrow> 'r host_vectors" where
  "collect_levels pc finest_level lev hv =
     (if lev \<le> finest_level
      then collect_levels pc finest_level (lev + 1) (collect_tiles (GetParticles pc lev) hv)
      else hv)"
  by pat_completeness auto
termination
  by (relation "measure (\<lambda>(pc, finest_level, lev, hv). nat (finest_level + 1 - lev))") auto

declare collect_levels.simps [simp del]

subsection \<open>4. and 5. The text written to the stream\<close>

text \<open>
  The stream \<^verbatim>\<open>ofs\<close> is the text written so far; every \<^verbatim>\<open>ofs << x\<close> appends.
\<close>

definition write_header :: "string \<Rightarrow> string" where
  "write_header ofs =
     ofs @ ''# vtk DataFile Version 3.0\<newline>''
         @ ''MD particles\<newline>''
         @ ''ASCII\<newline>''
         @ ''DATASET POLYDATA\<newline>''"

text \<open>The loop of the POINTS section (source lines 172 to 174).\<close>

function write_points ::
  "('r \<Rightarrow> string) \<Rightarrow> 'r list \<Rightarrow> 'r list \<Rightarrow> 'r list \<Rightarrow> int \<Rightarrow> int \<Rightarrow> string \<Rightarrow> string option" where
  "write_points fmt xs ys zs np_total i ofs =
     (if i < np_total then
        (case Vector_at xs i of None \<Rightarrow> None | Some x \<Rightarrow>
          (case Vector_at ys i of None \<Rightarrow> None | Some y \<Rightarrow>
            (case Vector_at zs i of None \<Rightarrow> None | Some z \<Rightarrow>
               write_points fmt xs ys zs np_total (i + 1)
                 (ofs @ fmt x @ '' '' @ fmt y @ '' '' @ fmt z @ ''\<newline>''))))
      else Some ofs)"
  by pat_completeness auto
termination
  by (relation "measure (\<lambda>(fmt, xs, ys, zs, np_total, i, ofs). nat (np_total - i))") auto

declare write_points.simps [simp del]

text \<open>The loop of the VERTICES section (source lines 179 to 181).\<close>

function write_vertices :: "int \<Rightarrow> int \<Rightarrow> string \<Rightarrow> string" where
  "write_vertices np_total i ofs =
     (if i < np_total
      then write_vertices np_total (i + 1) (ofs @ ''1 '' @ show_int i @ ''\<newline>'')
      else ofs)"
  by pat_completeness auto
termination
  by (relation "measure (\<lambda>(np_total, i, ofs). nat (np_total - i))") auto

declare write_vertices.simps [simp del]

text \<open>The loop inside the lambda \<^verbatim>\<open>write_scalar\<close> (source lines 194 to 196).\<close>

function write_values ::
  "('r \<Rightarrow> string) \<Rightarrow> 'r list \<Rightarrow> int \<Rightarrow> int \<Rightarrow> string \<Rightarrow> string option" where
  "write_values fmt data np_total i ofs =
     (if i < np_total then
        (case Vector_at data i of None \<Rightarrow> None | Some d \<Rightarrow>
           write_values fmt data np_total (i + 1) (ofs @ fmt d @ ''\<newline>''))
      else Some ofs)"
  by pat_completeness auto
termination
  by (relation "measure (\<lambda>(fmt, data, np_total, i, ofs). nat (np_total - i))") auto

declare write_values.simps [simp del]

text \<open>
  The lambda \<^verbatim>\<open>write_scalar\<close> (source lines 189 to 198); it captures \<^verbatim>\<open>ofs\<close> and
  \<^verbatim>\<open>np_total\<close> by reference.
\<close>

definition write_scalar ::
  "('r \<Rightarrow> string) \<Rightarrow> int \<Rightarrow> string \<Rightarrow> 'r list \<Rightarrow> string \<Rightarrow> string option" where
  "write_scalar fmt np_total name data ofs =
     (case write_values fmt data np_total 0
             (ofs @ ''SCALARS '' @ name @ '' double 1\<newline>'' @ ''LOOKUP_TABLE default\<newline>'') of
        None \<Rightarrow> None
      | Some ofs' \<Rightarrow> Some (ofs' @ ''\<newline>''))"

text \<open>
  Everything between opening and closing the stream (source lines 165 to 205), in the
  order of the statements; a fault in one loop ends the writing.
\<close>

definition write_vtk ::
  "('r \<Rightarrow> string) \<Rightarrow> int \<Rightarrow> 'r host_vectors \<Rightarrow> string option" where
  "write_vtk fmt np_total hv =
     Option.bind
       (write_points fmt (vec_xs hv) (vec_ys hv) (vec_zs hv) np_total 0
          (write_header [] @ ''POINTS '' @ show_int np_total @ '' double\<newline>''))
       (\<lambda>ofs.
          Option.bind
            (write_scalar fmt np_total ''vx'' (vec_vxs hv)
               (write_vertices np_total 0
                  (ofs @ ''\<newline>''
                       @ ''VERTICES '' @ show_int np_total @ '' '' @ show_int (2 * np_total)
                       @ ''\<newline>'')
                @ ''\<newline>''
                @ ''POINT_DATA '' @ show_int np_total @ ''\<newline>''))
            (\<lambda>ofs. Option.bind (write_scalar fmt np_total ''vy'' (vec_vys hv) ofs)
            (\<lambda>ofs. Option.bind (write_scalar fmt np_total ''vz'' (vec_vzs hv) ofs)
            (\<lambda>ofs. Option.bind (write_scalar fmt np_total ''ax'' (vec_axs hv) ofs)
            (\<lambda>ofs. Option.bind (write_scalar fmt np_total ''ay'' (vec_ays hv) ofs)
            (\<lambda>ofs. write_scalar fmt np_total ''az'' (vec_azs hv) ofs))))))"

subsection \<open>The function\<close>

text \<open>
  \<^verbatim>\<open>WriteParticlesVTK(pc, nstep)\<close>. The result is the world after the call, or the
  fault of an index out of range. Opening the stream on a name that can be opened
  creates (or empties) the file; what has been written is its content once the stream
  is closed. A stream that is not \<^verbatim>\<open>good()\<close> has created nothing.
\<close>

definition WriteParticlesVTK ::
  "('r \<Rightarrow> string) \<Rightarrow> 'r MDParticleContainer \<Rightarrow> int \<Rightarrow> world \<Rightarrow> fault + world" where
  "WriteParticlesVTK fmt pc nstep w =
     (let finest_level = finestLevel pc;
          np_total = count_levels pc finest_level 0 0
      in if np_total = 0
         then Inr (Print ''WriteParticlesVTK: no particles to write.\<newline>'' w)
         else
           let hv = collect_levels pc finest_level 0 empty_vectors;
               vtkfile = Concatenate ''particles_'' nstep 5 @ ''.vtk''
           in if \<not> ofstream_good w vtkfile
              then Inr (Print (''WriteParticlesVTK: could not open file '' @ vtkfile
                               @ ''\<newline>'') w)
              else
                (case write_vtk fmt np_total hv of
                   None \<Rightarrow> Inl OutOfBounds
                 | Some ofs \<Rightarrow>
                     Inr (Print (''WriteParticlesVTK: wrote '' @ show_int np_total
                                 @ '' particles to '' @ vtkfile @ ''\<newline>'')
                            (w\<lparr>files := (files w)(vtkfile \<mapsto> ofs)\<rparr>))))"

section \<open>WritePlotFile\<close>

subsection \<open>The AMReX values the function builds\<close>

text \<open>
  \<^verbatim>\<open>IntVect\<close> in three dimensions (the particles have \<^verbatim>\<open>pos(2)\<close>), so
  \<^verbatim>\<open>IntVect(AMREX_D_DECL(2, 2, 2))\<close> is \<open>IntVect 2 2 2\<close>. A \<^verbatim>\<open>Box\<close> is its two
  corners. Of a \<^verbatim>\<open>Geometry\<close> the function reads \<^verbatim>\<open>Domain()\<close> only.
\<close>

datatype IntVect = IntVect int int int

datatype Box = Box IntVect IntVect

record Geometry =
  Domain :: Box

text \<open>
  Modelled from the spec: the constructors of \<^verbatim>\<open>amrex::BoxArray\<close>,
  \<^verbatim>\<open>amrex::DistributionMapping\<close> and \<^verbatim>\<open>amrex::MultiFab\<close> and
  \<^verbatim>\<open>MultiFab::setVal\<close>, of the AMReX library, which are not among the sources. The
  spec: one field array per level "covering the full per-level domain with zero ghost
  cells", "assigned to processing units by a decomposition computed from the box layout
  alone", "values are unconditionally zero"; the source's comment: "Single BoxArray
  covering the whole domain at this level". A box array is the list of its boxes, and
  the one built from a box holds that box. A distribution mapping is the value built
  from a box array. A field array is what it was constructed from together with the
  value its cells were set to, if any.
\<close>

type_synonym BoxArray = "Box list"

definition BoxArray_of_Box :: "Box \<Rightarrow> BoxArray" where
  "BoxArray_of_Box bx = [bx]"

datatype DistributionMapping = DistributionMapping BoxArray

record MultiFab =
  boxArray :: BoxArray
  DistributionMap :: DistributionMapping
  nComp :: int
  nGrow :: int
  cell_value :: "real option"

definition MultiFab_new :: "BoxArray \<Rightarrow> DistributionMapping \<Rightarrow> int \<Rightarrow> int \<Rightarrow> MultiFab" where
  "MultiFab_new ba dm ncomp ngrow =
     \<lparr>boxArray = ba, DistributionMap = dm, nComp = ncomp, nGrow = ngrow, cell_value = None\<rparr>"

definition setVal :: "real \<Rightarrow> MultiFab \<Rightarrow> MultiFab" where
  "setVal v m = m\<lparr>cell_value := Some v\<rparr>"

text \<open>
  The two collaborators the function calls, with the arguments of each call:
  \<^verbatim>\<open>WriteMultiLevelPlotfile(pltfile, num_levels, output_cc, varnames, geom, time,
  level_steps, refRatio)\<close> and \<^verbatim>\<open>pc.Checkpoint(pltfile, "particle0", true,
  particle_varnames)\<close>, whose receiver is the argument \<^verbatim>\<open>pc\<close> itself. A pointer to a
  field array is the array it points to, or \<open>None\<close> for the null pointer.
\<close>

datatype call =
  WriteMultiLevelPlotfile string int "MultiFab option list" "string list" "Geometry list"
    real "int list" "IntVect list"
| Checkpoint string string bool "string list"

text \<open>What a call of \<^verbatim>\<open>WritePlotFile\<close> has done: the field arrays it owns in
  \<^verbatim>\<open>mf\<close>, and its calls of the collaborators, in order.\<close>

record plot_effects =
  field_arrays :: "MultiFab option list"
  calls :: "call list"

subsection \<open>The loops\<close>

text \<open>The loop over the levels that builds \<^verbatim>\<open>mf\<close> and \<^verbatim>\<open>output_cc\<close>
  (source lines 40 to 49).\<close>

function build_levels ::
  "Geometry list \<Rightarrow> string list \<Rightarrow> int \<Rightarrow> int \<Rightarrow> MultiFab option list \<Rightarrow> MultiFab option list
     \<Rightarrow> MultiFab option list \<times> MultiFab option list" where
  "build_levels geom varnames num_levels lev mf output_cc =
     (if lev < num_levels then
        (let ba = BoxArray_of_Box (Domain (geom ! nat lev));
             dm = DistributionMapping ba;
             mf = mf[nat lev := Some (MultiFab_new ba dm (int (length varnames)) 0)];
             mf = mf[nat lev := map_option (setVal 0) (mf ! nat lev)];
             output_cc = output_cc[nat lev := mf ! nat lev]
         in build_levels geom varnames num_levels (lev + 1) mf output_cc)
      else (mf, output_cc))"
  by pat_completeness auto
termination
  by (relation "measure (\<lambda>(geom, varnames, num_levels, lev, mf, output_cc). nat (num_levels - lev))")
    auto

declare build_levels.simps [simp del]

text \<open>The loop that fills \<^verbatim>\<open>refRatio\<close> (source lines 53 to 55).\<close>

function fill_refRatio :: "int \<Rightarrow> int \<Rightarrow> IntVect list \<Rightarrow> IntVect list" where
  "fill_refRatio num_levels lev refRatio =
     (if lev < num_levels - 1
      then fill_refRatio num_levels (lev + 1) (refRatio[nat lev := IntVect 2 2 2])
      else refRatio)"
  by pat_completeness auto
termination
  by (relation "measure (\<lambda>(num_levels, lev, refRatio). nat (num_levels - lev))") auto

declare fill_refRatio.simps [simp del]

subsection \<open>The function\<close>

text \<open>
  \<^verbatim>\<open>WritePlotFile(pc, geom, nstep)\<close>. The vectors are created with their sizes:
  \<^verbatim>\<open>varnames(1)\<close> of empty strings, \<^verbatim>\<open>level_steps(num_levels, nstep)\<close>, \<^verbatim>\<open>mf\<close> and
  \<^verbatim>\<open>output_cc\<close> of null pointers, \<^verbatim>\<open>refRatio\<close> of default (zero) vectors.
\<close>

definition WritePlotFile ::
  "'r MDParticleContainer \<Rightarrow> Geometry list \<Rightarrow> int \<Rightarrow> plot_effects" where
  "WritePlotFile pc geom nstep =
     (let num_levels = int (length geom)
      in if num_levels \<le> 0
         then \<lparr>field_arrays = [], calls = []\<rparr>
         else
           let varnames = (replicate 1 [])[0 := ''dummy''];
               level_steps = replicate (nat num_levels) nstep;
               (mf, output_cc) =
                  build_levels geom varnames num_levels 0
                    (replicate (nat num_levels) None) (replicate (nat num_levels) None);
               refRatio =
                  fill_refRatio num_levels 0
                    (replicate (nat (max (num_levels - 1) 0)) (IntVect 0 0 0));
               pltfile = Concatenate ''plt'' nstep 5;
               particle_varnames =
                  (replicate PIdx_ncomps [])
                    [PIdx_vx := ''vx'', PIdx_vy := ''vy'', PIdx_vz := ''vz'',
                     PIdx_ax := ''ax'', PIdx_ay := ''ay'', PIdx_az := ''az'']
           in \<lparr>field_arrays = mf,
               calls =
                 [WriteMultiLevelPlotfile pltfile num_levels output_cc varnames geom 0
                    level_steps refRatio,
                  Checkpoint pltfile ''particle0'' True particle_varnames]\<rparr>)"

section \<open>The spec's words, for comparison with the code\<close>

subsection \<open>The particle population\<close>

text \<open>
  The sum, over the levels from 0 to the finest and over the tiles of each level, of the
  tile's particle count.
\<close>

definition spec_total_count :: "'r MDParticleContainer \<Rightarrow> int" where
  "spec_total_count pc =
     (\<Sum>lev\<leftarrow>[0..finestLevel pc]. \<Sum>kv\<leftarrow>GetParticles pc lev.
        int (numParticles (GetArrayOfStructs (snd kv))))"

text \<open>
  The aggregated sequence: the particles in the order (level ascending, tile iteration
  order, position in the tile).
\<close>

definition spec_tile_particles :: "'r ParticleTile \<Rightarrow> 'r Particle list" where
  "spec_tile_particles ptile =
     map (dataPtr (GetArrayOfStructs ptile)) [0..<numParticles (GetArrayOfStructs ptile)]"

definition spec_level_particles :: "'r ParticleLevel \<Rightarrow> 'r Particle list" where
  "spec_level_particles plev = concat (map (\<lambda>kv. spec_tile_particles (snd kv)) plev)"

definition spec_aggregated :: "'r MDParticleContainer \<Rightarrow> 'r Particle list" where
  "spec_aggregated pc =
     concat (map (\<lambda>lev. spec_level_particles (GetParticles pc lev)) [0..finestLevel pc])"

text \<open>The nine parallel sequences of a particle sequence.\<close>

definition spec_columns :: "'r Particle list \<Rightarrow> 'r host_vectors" where
  "spec_columns ps =
     \<lparr>vec_xs = map (\<lambda>p. pos p 0) ps,
      vec_ys = map (\<lambda>p. pos p 1) ps,
      vec_zs = map (\<lambda>p. pos p 2) ps,
      vec_vxs = map (\<lambda>p. rdata p PIdx_vx) ps,
      vec_vys = map (\<lambda>p. rdata p PIdx_vy) ps,
      vec_vzs = map (\<lambda>p. rdata p PIdx_vz) ps,
      vec_axs = map (\<lambda>p. rdata p PIdx_ax) ps,
      vec_ays = map (\<lambda>p. rdata p PIdx_ay) ps,
      vec_azs = map (\<lambda>p. rdata p PIdx_az) ps\<rparr>"

text \<open>The vectors with the columns of more particles pushed at their ends (for the proofs).\<close>

definition append_columns :: "'r host_vectors \<Rightarrow> 'r Particle list \<Rightarrow> 'r host_vectors" where
  "append_columns hv ps =
     \<lparr>vec_xs = vec_xs hv @ map (\<lambda>p. pos p 0) ps,
      vec_ys = vec_ys hv @ map (\<lambda>p. pos p 1) ps,
      vec_zs = vec_zs hv @ map (\<lambda>p. pos p 2) ps,
      vec_vxs = vec_vxs hv @ map (\<lambda>p. rdata p PIdx_vx) ps,
      vec_vys = vec_vys hv @ map (\<lambda>p. rdata p PIdx_vy) ps,
      vec_vzs = vec_vzs hv @ map (\<lambda>p. rdata p PIdx_vz) ps,
      vec_axs = vec_axs hv @ map (\<lambda>p. rdata p PIdx_ax) ps,
      vec_ays = vec_ays hv @ map (\<lambda>p. rdata p PIdx_ay) ps,
      vec_azs = vec_azs hv @ map (\<lambda>p. rdata p PIdx_az) ps\<rparr>"

subsection \<open>The layout of the point-cloud file\<close>

text \<open>A text as its lines, each ended by a newline; and back.\<close>

definition unlines :: "string list \<Rightarrow> string" where
  "unlines ls = concat (map (\<lambda>l. l @ ''\<newline>'') ls)"

fun split_lines :: "string \<Rightarrow> string \<Rightarrow> string list" where
  "split_lines cur [] = (if cur = [] then [] else [cur])"
| "split_lines cur (c # cs) =
     (if c = CHR ''\<newline>'' then cur # split_lines [] cs else split_lines (cur @ [c]) cs)"

definition lines_of :: "string \<Rightarrow> string list" where
  "lines_of content = split_lines [] content"

text \<open>The lines of the file of a name after a call, none if there is no such file.\<close>

definition written_lines :: "fault + world \<Rightarrow> string \<Rightarrow> string list" where
  "written_lines r name =
     (case r of Inl e \<Rightarrow> []
      | Inr w \<Rightarrow> (case files w name of None \<Rightarrow> [] | Some content \<Rightarrow> lines_of content))"

text \<open>
  The blocks of section 4.5 of the spec, as lines: the header (the four lines the code
  writes first), the point block, the topology block, the point-attribute block with its
  six scalar sub-blocks.
\<close>

definition header_lines :: "string list" where
  "header_lines =
     [''# vtk DataFile Version 3.0'', ''MD particles'', ''ASCII'', ''DATASET POLYDATA'']"

definition spec_points_rows :: "('r \<Rightarrow> string) \<Rightarrow> 'r Particle list \<Rightarrow> string list" where
  "spec_points_rows fmt ps =
     map (\<lambda>p. fmt (pos p 0) @ '' '' @ fmt (pos p 1) @ '' '' @ fmt (pos p 2)) ps"

definition spec_points_block :: "('r \<Rightarrow> string) \<Rightarrow> 'r Particle list \<Rightarrow> string list" where
  "spec_points_block fmt ps =
     [''POINTS '' @ show_int (int (length ps)) @ '' double''] @ spec_points_rows fmt ps @ ['''']"

definition spec_vertex_rows :: "nat \<Rightarrow> string list" where
  "spec_vertex_rows n = map (\<lambda>i. ''1 '' @ show_int (int i)) [0..<n]"

definition spec_vertices_block :: "nat \<Rightarrow> string list" where
  "spec_vertices_block n =
     [''VERTICES '' @ show_int (int n) @ '' '' @ show_int (2 * int n)]
     @ spec_vertex_rows n @ ['''']"

definition spec_scalar_rows :: "('r \<Rightarrow> string) \<Rightarrow> nat \<Rightarrow> 'r Particle list \<Rightarrow> string list" where
  "spec_scalar_rows fmt k ps = map (\<lambda>p. fmt (rdata p k)) ps"

definition spec_scalars_block ::
  "('r \<Rightarrow> string) \<Rightarrow> string \<Rightarrow> nat \<Rightarrow> 'r Particle list \<Rightarrow> string list" where
  "spec_scalars_block fmt name k ps =
     [''SCALARS '' @ name @ '' double 1'', ''LOOKUP_TABLE default'']
     @ spec_scalar_rows fmt k ps @ ['''']"

definition spec_point_data_block :: "('r \<Rightarrow> string) \<Rightarrow> 'r Particle list \<Rightarrow> string list" where
  "spec_point_data_block fmt ps =
     [''POINT_DATA '' @ show_int (int (length ps))]
     @ spec_scalars_block fmt ''vx'' PIdx_vx ps
     @ spec_scalars_block fmt ''vy'' PIdx_vy ps
     @ spec_scalars_block fmt ''vz'' PIdx_vz ps
     @ spec_scalars_block fmt ''ax'' PIdx_ax ps
     @ spec_scalars_block fmt ''ay'' PIdx_ay ps
     @ spec_scalars_block fmt ''az'' PIdx_az ps"

definition spec_vtk_lines :: "('r \<Rightarrow> string) \<Rightarrow> 'r Particle list \<Rightarrow> string list" where
  "spec_vtk_lines fmt ps =
     header_lines @ spec_points_block fmt ps @ spec_vertices_block (length ps)
     @ spec_point_data_block fmt ps"

subsection \<open>The arguments of the checkpoint\<close>

text \<open>
  The field array of a level: one component, no ghost cells, every value zero, over the
  level's domain as a single box.
\<close>

definition spec_field_array :: "Geometry \<Rightarrow> MultiFab" where
  "spec_field_array g =
     \<lparr>boxArray = [Domain g], DistributionMap = DistributionMapping [Domain g],
      nComp = 1, nGrow = 0, cell_value = Some 0\<rparr>"

definition spec_particle_varnames :: "string list" where
  "spec_particle_varnames = [''vx'', ''vy'', ''vz'', ''ax'', ''ay'', ''az'']"

subsection \<open>Concrete inputs\<close>

text \<open>
  The second scenario of the spec: two levels, two particles on level 0 and one on
  level 1, step 7. The values are natural numbers, printed in decimal. Particle \<open>k\<close>
  has position \<open>10 k + d\<close> and attributes \<open>100 k + c\<close>.
\<close>

definition ex_particle :: "nat \<Rightarrow> nat Particle" where
  "ex_particle k = \<lparr>pos = (\<lambda>d. 10 * k + d), rdata = (\<lambda>c. 100 * k + c)\<rparr>"

definition ex_tile :: "nat \<Rightarrow> nat \<Rightarrow> nat ParticleTile" where
  "ex_tile first n =
     \<lparr>GetArrayOfStructs = \<lparr>numParticles = n, dataPtr = (\<lambda>i. ex_particle (first + i))\<rparr>\<rparr>"

definition ex_pc :: "nat MDParticleContainer" where
  "ex_pc =
     \<lparr>finestLevel = 1,
      GetParticles = (\<lambda>lev. if lev = 0 then [((0, 0), ex_tile 1 2)]
                             else if lev = 1 then [((0, 0), ex_tile 3 1)] else [])\<rparr>"

definition ex_pc_empty :: "nat MDParticleContainer" where
  "ex_pc_empty = \<lparr>finestLevel = 0, GetParticles = (\<lambda>lev. [((0, 0), ex_tile 1 0)])\<rparr>"

definition ex_world :: world where
  "ex_world = \<lparr>stdout = [], files = (\<lambda>name. None), ofstream_good = (\<lambda>name. True)\<rparr>"

definition ex_geom :: "Geometry list" where
  "ex_geom =
     [\<lparr>Domain = Box (IntVect 0 0 0) (IntVect 3 3 3)\<rparr>,
      \<lparr>Domain = Box (IntVect 0 0 0) (IntVect 7 7 7)\<rparr>]"

definition ex_world_readonly :: world where
  "ex_world_readonly = \<lparr>stdout = [], files = (\<lambda>name. None), ofstream_good = (\<lambda>name. False)\<rparr>"

section \<open>The loops compute what the spec describes\<close>

subsection \<open>Counting and collecting\<close>

lemma count_tiles_sum:
  "count_tiles plev n = n + (\<Sum>kv\<leftarrow>plev. int (numParticles (GetArrayOfStructs (snd kv))))"
  by (induction plev arbitrary: n) (simp_all add: Let_def)

lemma count_levels_sum:
  "count_levels pc fl lev n =
     n + (\<Sum>l\<leftarrow>[lev..fl]. \<Sum>kv\<leftarrow>GetParticles pc l. int (numParticles (GetArrayOfStructs (snd kv))))"
proof (induction pc fl lev n rule: count_levels.induct)
  case (1 pc fl lev n)
  show ?case
  proof (cases "lev \<le> fl")
    case True
    then have "[lev..fl] = lev # [lev + 1..fl]"
      by (simp add: upto_rec1)
    with True 1 show ?thesis
      by (simp add: count_levels.simps [of pc fl lev n] count_tiles_sum)
  next
    case False
    then show ?thesis
      by (simp add: count_levels.simps [of pc fl lev n])
  qed
qed

lemma count_levels_total: "count_levels pc (finestLevel pc) 0 0 = spec_total_count pc"
  by (simp add: count_levels_sum spec_total_count_def)

lemma length_tile_particles: "length (spec_tile_particles t) = numParticles (GetArrayOfStructs t)"
  by (simp add: spec_tile_particles_def)

lemma length_level_particles:
  "int (length (spec_level_particles plev)) = (\<Sum>kv\<leftarrow>plev. int (numParticles (GetArrayOfStructs (snd kv))))"
  by (induction plev) (simp_all add: spec_level_particles_def length_tile_particles)

lemma length_concat_int: "int (length (concat xss)) = (\<Sum>xs\<leftarrow>xss. int (length xs))"
  by (induction xss) simp_all

lemma length_aggregated: "int (length (spec_aggregated pc)) = spec_total_count pc"
  by (simp add: spec_aggregated_def spec_total_count_def length_concat_int comp_def length_level_particles)

lemma append_columns_Nil: "append_columns hv [] = hv"
  by (simp add: append_columns_def)

lemma append_columns_Cons: "append_columns hv (p # ps) = append_columns (collect_particle p hv) ps"
  by (simp add: append_columns_def collect_particle_def push_back_def)

lemma append_columns_append:
  "append_columns hv (ps @ qs) = append_columns (append_columns hv ps) qs"
  by (simp add: append_columns_def)

lemma append_columns_empty: "append_columns empty_vectors ps = spec_columns ps"
  by (simp add: append_columns_def empty_vectors_def spec_columns_def)

lemma collect_tile_columns: "collect_tile p np i hv = append_columns hv (map p [i..<np])"
proof (induction p np i hv rule: collect_tile.induct)
  case (1 p np i hv)
  show ?case
  proof (cases "i < np")
    case True
    then have "[i..<np] = i # [i + 1..<np]"
      by (simp add: upt_conv_Cons)
    with True 1 show ?thesis
      by (simp add: collect_tile.simps [of p np i hv] append_columns_Cons)
  next
    case False
    then show ?thesis
      by (simp add: collect_tile.simps [of p np i hv] append_columns_Nil)
  qed
qed

lemma collect_tiles_columns: "collect_tiles plev hv = append_columns hv (spec_level_particles plev)"
proof (induction plev arbitrary: hv)
  case Nil
  show ?case by (simp add: spec_level_particles_def append_columns_Nil)
next
  case (Cons kv plev)
  have "spec_level_particles (kv # plev) = spec_tile_particles (snd kv) @ spec_level_particles plev"
    by (simp add: spec_level_particles_def)
  then show ?case
    by (simp add: Cons Let_def collect_tile_columns append_columns_append spec_tile_particles_def)
qed

lemma collect_levels_columns:
  "collect_levels pc fl lev hv =
     append_columns hv (concat (map (\<lambda>l. spec_level_particles (GetParticles pc l)) [lev..fl]))"
proof (induction pc fl lev hv rule: collect_levels.induct)
  case (1 pc fl lev hv)
  show ?case
  proof (cases "lev \<le> fl")
    case True
    then have "[lev..fl] = lev # [lev + 1..fl]"
      by (simp add: upto_rec1)
    with True 1 show ?thesis
      by (simp add: collect_levels.simps [of pc fl lev hv] collect_tiles_columns
          append_columns_append)
  next
    case False
    then show ?thesis
      by (simp add: collect_levels.simps [of pc fl lev hv] append_columns_Nil)
  qed
qed

lemma collect_levels_aggregated:
  "collect_levels pc (finestLevel pc) 0 empty_vectors = spec_columns (spec_aggregated pc)"
  by (simp add: collect_levels_columns spec_aggregated_def append_columns_empty)

lemma spec_aggregated_Nil_iff: "(spec_aggregated pc = []) = (spec_total_count pc = 0)"
  using length_aggregated [of pc] by auto

subsection \<open>Writing\<close>

lemma unlines_Nil: "unlines [] = []"
  by (simp add: unlines_def)

lemma unlines_Cons: "unlines (l # ls) = l @ ''\<newline>'' @ unlines ls"
  by (simp add: unlines_def)

lemma unlines_append: "unlines (ks @ ls) = unlines ks @ unlines ls"
  by (simp add: unlines_def)

lemma Vector_at_in_range: "0 \<le> i \<Longrightarrow> i < int (length data) \<Longrightarrow> Vector_at data i = Some (data ! nat i)"
  by (simp add: Vector_at_def)

lemma upt_nat_step: "0 \<le> i \<Longrightarrow> i < n \<Longrightarrow> [nat i..<nat n] = nat i # [nat (i + 1)..<nat n]"
proof -
  assume a: "0 \<le> i" "i < n"
  then have "nat i < nat n" by simp
  then have "[nat i..<nat n] = nat i # [Suc (nat i)..<nat n]"
    by (rule upt_conv_Cons)
  moreover from a have "Suc (nat i) = nat (i + 1)" by simp
  ultimately show ?thesis by simp
qed

lemma write_points_rows:
  "0 \<le> i \<Longrightarrow> np_total \<le> int (length xs) \<Longrightarrow> np_total \<le> int (length ys)
     \<Longrightarrow> np_total \<le> int (length zs)
     \<Longrightarrow> write_points fmt xs ys zs np_total i ofs =
           Some (ofs @ unlines (map (\<lambda>k. fmt (xs ! k) @ '' '' @ fmt (ys ! k) @ '' '' @ fmt (zs ! k))
                                  [nat i..<nat np_total]))"
proof (induction fmt xs ys zs np_total i ofs rule: write_points.induct)
  case (1 fmt xs ys zs np_total i ofs)
  show ?case
  proof (cases "i < np_total")
    case True
    with 1(2-) have at:
      "Vector_at xs i = Some (xs ! nat i)" "Vector_at ys i = Some (ys ! nat i)"
      "Vector_at zs i = Some (zs ! nat i)"
      by (simp_all add: Vector_at_in_range)
    from True 1(2) have step: "[nat i..<nat np_total] = nat i # [nat (i + 1)..<nat np_total]"
      by (rule_tac upt_nat_step) simp_all
    from 1(2) have "0 \<le> i + 1" by simp
    with 1(1) [OF True at(1) at(2) at(3)] 1(3-)
    have "write_points fmt xs ys zs np_total (i + 1)
            (ofs @ fmt (xs ! nat i) @ '' '' @ fmt (ys ! nat i) @ '' '' @ fmt (zs ! nat i) @ ''\<newline>'') =
          Some ((ofs @ fmt (xs ! nat i) @ '' '' @ fmt (ys ! nat i) @ '' '' @ fmt (zs ! nat i) @ ''\<newline>'')
                @ unlines (map (\<lambda>k. fmt (xs ! k) @ '' '' @ fmt (ys ! k) @ '' '' @ fmt (zs ! k))
                             [nat (i + 1)..<nat np_total]))"
      by simp
    with True at show ?thesis
      by (simp add: write_points.simps [of fmt xs ys zs np_total i ofs] step unlines_Cons)
  next
    case False
    then show ?thesis
      by (simp add: write_points.simps [of fmt xs ys zs np_total i ofs] unlines_Nil)
  qed
qed

lemma write_vertices_rows:
  "0 \<le> i \<Longrightarrow> write_vertices np_total i ofs =
     ofs @ unlines (map (\<lambda>k. ''1 '' @ show_int (int k)) [nat i..<nat np_total])"
proof (induction np_total i ofs rule: write_vertices.induct)
  case (1 np_total i ofs)
  show ?case
  proof (cases "i < np_total")
    case True
    from True 1(2) have step: "[nat i..<nat np_total] = nat i # [nat (i + 1)..<nat np_total]"
      by (rule_tac upt_nat_step) simp_all
    from 1(2) have "0 \<le> i + 1" by simp
    with 1(1) [OF True]
    have "write_vertices np_total (i + 1) (ofs @ ''1 '' @ show_int i @ ''\<newline>'') =
          (ofs @ ''1 '' @ show_int i @ ''\<newline>'')
            @ unlines (map (\<lambda>k. ''1 '' @ show_int (int k)) [nat (i + 1)..<nat np_total])"
      by simp
    with True 1(2) show ?thesis
      by (simp add: write_vertices.simps [of np_total i ofs] step unlines_Cons)
  next
    case False
    then show ?thesis
      by (simp add: write_vertices.simps [of np_total i ofs] unlines_Nil)
  qed
qed

lemma write_values_rows:
  "0 \<le> i \<Longrightarrow> np_total \<le> int (length data)
     \<Longrightarrow> write_values fmt data np_total i ofs =
           Some (ofs @ unlines (map (\<lambda>k. fmt (data ! k)) [nat i..<nat np_total]))"
proof (induction fmt data np_total i ofs rule: write_values.induct)
  case (1 fmt data np_total i ofs)
  show ?case
  proof (cases "i < np_total")
    case True
    with 1(2-) have at: "Vector_at data i = Some (data ! nat i)"
      by (simp add: Vector_at_in_range)
    from True 1(2) have step: "[nat i..<nat np_total] = nat i # [nat (i + 1)..<nat np_total]"
      by (rule_tac upt_nat_step) simp_all
    from 1(2) have "0 \<le> i + 1" by simp
    with 1(1) [OF True at] 1(3)
    have "write_values fmt data np_total (i + 1) (ofs @ fmt (data ! nat i) @ ''\<newline>'') =
          Some ((ofs @ fmt (data ! nat i) @ ''\<newline>'')
                @ unlines (map (\<lambda>k. fmt (data ! k)) [nat (i + 1)..<nat np_total]))"
      by simp
    with True at show ?thesis
      by (simp add: write_values.simps [of fmt data np_total i ofs] step unlines_Cons)
  next
    case False
    then show ?thesis
      by (simp add: write_values.simps [of fmt data np_total i ofs] unlines_Nil)
  qed
qed

lemma map_nth_map: "map (\<lambda>k. g (map f ps ! k)) [0..<length ps] = map (\<lambda>p. g (f p)) ps"
  by (rule nth_equalityI) simp_all

lemma write_scalar_block:
  "write_scalar fmt (int (length ps)) name (map (\<lambda>p. rdata p k) ps) ofs =
     Some (ofs @ unlines (spec_scalars_block fmt name k ps))"
proof -
  have "map (\<lambda>j. fmt (map (\<lambda>p. rdata p k) ps ! j)) [0..<length ps] = map (\<lambda>p. fmt (rdata p k)) ps"
    by (rule map_nth_map)
  then show ?thesis
    by (simp add: write_scalar_def write_values_rows spec_scalars_block_def spec_scalar_rows_def
        unlines_Cons unlines_append unlines_Nil)
qed

lemma write_points_block:
  "write_points fmt (map (\<lambda>p. pos p 0) ps) (map (\<lambda>p. pos p 1) ps) (map (\<lambda>p. pos p 2) ps)
     (int (length ps)) 0 ofs =
   Some (ofs @ unlines (spec_points_rows fmt ps))"
proof -
  have "map (\<lambda>k. fmt (map (\<lambda>p. pos p 0) ps ! k) @ '' '' @ fmt (map (\<lambda>p. pos p 1) ps ! k) @ '' ''
                 @ fmt (map (\<lambda>p. pos p 2) ps ! k)) [0..<length ps] =
        spec_points_rows fmt ps"
    unfolding spec_points_rows_def by (rule nth_equalityI) simp_all
  then show ?thesis
    by (simp add: write_points_rows)
qed

lemma write_vertices_block:
  "write_vertices (int n) 0 ofs = ofs @ unlines (spec_vertex_rows n)"
  by (simp add: write_vertices_rows spec_vertex_rows_def)


lemma spec_columns_sel:
  "vec_xs (spec_columns ps) = map (\<lambda>p. pos p 0) ps"
  "vec_ys (spec_columns ps) = map (\<lambda>p. pos p 1) ps"
  "vec_zs (spec_columns ps) = map (\<lambda>p. pos p 2) ps"
  "vec_vxs (spec_columns ps) = map (\<lambda>p. rdata p PIdx_vx) ps"
  "vec_vys (spec_columns ps) = map (\<lambda>p. rdata p PIdx_vy) ps"
  "vec_vzs (spec_columns ps) = map (\<lambda>p. rdata p PIdx_vz) ps"
  "vec_axs (spec_columns ps) = map (\<lambda>p. rdata p PIdx_ax) ps"
  "vec_ays (spec_columns ps) = map (\<lambda>p. rdata p PIdx_ay) ps"
  "vec_azs (spec_columns ps) = map (\<lambda>p. rdata p PIdx_az) ps"
  by (simp_all add: spec_columns_def)

lemma write_vtk_lines:
  "write_vtk fmt (int (length ps)) (spec_columns ps) = Some (unlines (spec_vtk_lines fmt ps))"
  unfolding write_vtk_def spec_columns_sel write_points_block write_vertices_block
    write_scalar_block Option.bind.simps
  by (simp add: write_header_def spec_vtk_lines_def header_lines_def
      spec_points_block_def spec_vertices_block_def spec_point_data_block_def
      unlines_Cons unlines_append unlines_Nil)

lemma WriteParticlesVTK_cases:
  "WriteParticlesVTK fmt pc nstep w =
     (if spec_aggregated pc = []
      then Inr (Print ''WriteParticlesVTK: no particles to write.\<newline>'' w)
      else if \<not> ofstream_good w (Concatenate ''particles_'' nstep 5 @ ''.vtk'')
      then Inr (Print (''WriteParticlesVTK: could not open file ''
                       @ (Concatenate ''particles_'' nstep 5 @ ''.vtk'') @ ''\<newline>'') w)
      else Inr (Print (''WriteParticlesVTK: wrote '' @ show_int (int (length (spec_aggregated pc)))
                       @ '' particles to '' @ (Concatenate ''particles_'' nstep 5 @ ''.vtk'')
                       @ ''\<newline>'')
                  (w\<lparr>files := (files w)(Concatenate ''particles_'' nstep 5 @ ''.vtk'' \<mapsto>
                                  unlines (spec_vtk_lines fmt (spec_aggregated pc)))\<rparr>)))"
proof -
  have n: "count_levels pc (finestLevel pc) 0 0 = int (length (spec_aggregated pc))"
    by (simp add: count_levels_total length_aggregated)
  have z: "(int (length (spec_aggregated pc)) = 0) = (spec_aggregated pc = [])"
    by simp
  show ?thesis
    unfolding WriteParticlesVTK_def Let_def n z collect_levels_aggregated write_vtk_lines
    by simp
qed

lemma WriteParticlesVTK_written:
  assumes "ofstream_good w (Concatenate ''particles_'' nstep 5 @ ''.vtk'')"
    and "spec_total_count pc \<noteq> 0"
  shows "\<exists>w'. WriteParticlesVTK fmt pc nstep w = Inr w'
           \<and> files w' (Concatenate ''particles_'' nstep 5 @ ''.vtk'') =
               Some (unlines (spec_vtk_lines fmt (spec_aggregated pc)))"
  using assms by (simp add: WriteParticlesVTK_cases spec_aggregated_Nil_iff Print_def)

lemma split_lines_line:
  "CHR ''\<newline>'' \<notin> set l \<Longrightarrow> split_lines cur (l @ CHR ''\<newline>'' # rest) = (cur @ l) # split_lines [] rest"
  by (induction l arbitrary: cur) auto

lemma lines_of_unlines_Cons:
  "CHR ''\<newline>'' \<notin> set l \<Longrightarrow> lines_of (unlines (l # ls)) = l # lines_of (unlines ls)"
  using split_lines_line [of l "[]" "unlines ls"] by (simp add: lines_of_def unlines_Cons)

lemma length_show_nat: "n < 10 ^ k \<Longrightarrow> 0 < k \<Longrightarrow> length (show_nat n) \<le> k"
proof (induction n arbitrary: k rule: show_nat.induct)
  case (1 n)
  show ?case
  proof (cases "n < 10")
    case True
    with 1(3) show ?thesis by (subst show_nat.simps) simp
  next
    case False
    with 1(2) have "1 < k"
      by (cases "k = 1") (use 1(3) in simp_all)
    then obtain j where j: "k = Suc j" "0 < j"
      by (cases k) simp_all
    with 1(2) have "n div 10 < 10 ^ j"
      by (simp add: less_mult_imp_div_less mult.commute)
    with 1(1) [OF False this j(2)] False j show ?thesis
      by (subst show_nat.simps) simp
  qed
qed

lemma digit_in_digits: "k < 10 \<Longrightarrow> ''0123456789'' ! k \<in> set ''0123456789''"
  by (rule nth_mem) simp

lemma set_show_nat: "set (show_nat n) \<subseteq> set ''0123456789''"
proof (induction n rule: show_nat.induct)
  case (1 n)
  show ?case
  proof (cases "n < 10")
    case True
    then show ?thesis
      using digit_in_digits [of n] by (subst show_nat.simps) simp
  next
    case False
    have "n mod 10 < 10" by simp
    with 1 [OF False] False show ?thesis
      using digit_in_digits [of "n mod 10"] by (subst show_nat.simps) simp
  qed
qed

lemma length_padded:
  "0 \<le> nstep \<Longrightarrow> nstep < 100000 \<Longrightarrow>
     length (replicate (5 - length (show_int nstep)) (CHR ''0'') @ show_int nstep) = 5"
proof -
  assume a: "0 \<le> nstep" "nstep < 100000"
  then have "nat nstep < 10 ^ 5" by simp
  then have "length (show_nat (nat nstep)) \<le> 5"
    by (rule length_show_nat) simp
  with a show ?thesis
    by (simp add: show_int_def)
qed

subsection \<open>The checkpoint\<close>

lemma build_step:
  "setVal 0 (MultiFab_new (BoxArray_of_Box (Domain g)) (DistributionMapping (BoxArray_of_Box (Domain g)))
      1 0) = spec_field_array g"
  by (simp add: setVal_def MultiFab_new_def BoxArray_of_Box_def spec_field_array_def)

lemma take_Suc_update: "k < length xs \<Longrightarrow> take (Suc k) (xs[k := x]) = take k xs @ [x]"
  by (simp add: take_Suc_conv_app_nth)

lemma build_levels_arrays:
  "0 \<le> lev \<Longrightarrow> lev \<le> int (length geom) \<Longrightarrow> length mf = length geom
     \<Longrightarrow> length output_cc = length geom
     \<Longrightarrow> build_levels geom [''dummy''] (int (length geom)) lev mf output_cc =
           (take (nat lev) mf @ map (\<lambda>g. Some (spec_field_array g)) (drop (nat lev) geom),
            take (nat lev) output_cc @ map (\<lambda>g. Some (spec_field_array g)) (drop (nat lev) geom))"
proof (induction geom "[''dummy'']" "int (length geom)" lev mf output_cc rule: build_levels.induct)
  case (1 geom lev mf output_cc)
  show ?case
  proof (cases "lev < int (length geom)")
    case True
    define k where "k = nat lev"
    define m where "m = Some (spec_field_array (geom ! k))"
    from True 1(2) have k: "k < length geom" "nat (lev + 1) = Suc k" "0 \<le> lev + 1"
      "lev + 1 \<le> int (length geom)"
      by (simp_all add: k_def nat_add_distrib)
    have dr: "drop k geom = geom ! k # drop (Suc k) geom"
      using k(1) by (simp add: Cons_nth_drop_Suc)
    have ih: "build_levels geom [''dummy''] (int (length geom)) (lev + 1) (mf[k := m]) (output_cc[k := m]) =
          (take (Suc k) (mf[k := m]) @ map (\<lambda>g. Some (spec_field_array g)) (drop (Suc k) geom),
           take (Suc k) (output_cc[k := m]) @ map (\<lambda>g. Some (spec_field_array g)) (drop (Suc k) geom))"
      using 1(1) [OF True refl refl refl refl refl k(3) k(4)] k(2)
      by (simp add: 1(4) 1(5) k_def [symmetric] m_def build_step k(1))
    have "build_levels geom [''dummy''] (int (length geom)) lev mf output_cc =
          build_levels geom [''dummy''] (int (length geom)) (lev + 1) (mf[k := m]) (output_cc[k := m])"
      using True k(1)
      by (subst build_levels.simps)
        (simp add: Let_def k_def [symmetric] m_def build_step 1(4) 1(5) del: list_update.simps)
    with ih show ?thesis
      using k(1) by (simp add: take_Suc_update 1(4) 1(5) dr m_def k_def [symmetric])
  next
    case False
    with 1(3) have "lev = int (length geom)" by simp
    with 1(4) 1(5) False show ?thesis
      by (subst build_levels.simps) simp
  qed
qed

lemma build_levels_all:
  "build_levels geom [''dummy''] (int (length geom)) 0
     (replicate (length geom) None) (replicate (length geom) None) =
   (map (\<lambda>g. Some (spec_field_array g)) geom, map (\<lambda>g. Some (spec_field_array g)) geom)"
  by (simp add: build_levels_arrays)

lemma fill_refRatio_take:
  "0 \<le> lev \<Longrightarrow> length refRatio = nat (num_levels - 1)
     \<Longrightarrow> fill_refRatio num_levels lev refRatio =
           take (nat lev) refRatio @ replicate (nat (num_levels - 1) - nat lev) (IntVect 2 2 2)"
proof (induction num_levels lev refRatio rule: fill_refRatio.induct)
  case (1 num_levels lev refRatio)
  show ?case
  proof (cases "lev < num_levels - 1")
    case True
    define k where "k = nat lev"
    from True 1(2) 1(3) have k: "k < length refRatio" "nat (lev + 1) = Suc k" "0 \<le> lev + 1"
      by (simp_all add: k_def nat_add_distrib)
    from k(1) 1(3) have r: "nat (num_levels - 1) - k = Suc (nat (num_levels - 1) - Suc k)"
      by simp
    have "fill_refRatio num_levels (lev + 1) (refRatio[k := IntVect 2 2 2]) =
          take (Suc k) (refRatio[k := IntVect 2 2 2])
            @ replicate (nat (num_levels - 1) - Suc k) (IntVect 2 2 2)"
      using 1(1) [OF True k(3)] 1(3) k(2) by (simp add: k_def [symmetric])
    moreover have "fill_refRatio num_levels lev refRatio =
          fill_refRatio num_levels (lev + 1) (refRatio[k := IntVect 2 2 2])"
      using True by (subst fill_refRatio.simps) (simp add: k_def)
    ultimately show ?thesis
      using k(1) by (simp add: take_Suc_update k_def [symmetric] r del: replicate.simps)
        (simp add: replicate_app_Cons_same)
  next
    case False
    with 1(3) have "length refRatio \<le> nat lev" by simp
    with False show ?thesis
      by (subst fill_refRatio.simps) simp
  qed
qed

lemma fill_refRatio_all:
  "fill_refRatio num_levels 0 (replicate (nat (max (num_levels - 1) 0)) (IntVect 0 0 0)) =
     replicate (nat (num_levels - 1)) (IntVect 2 2 2)"
  by (simp add: fill_refRatio_take max_def)

lemma particle_varnames:
  "(replicate PIdx_ncomps [])
      [PIdx_vx := ''vx'', PIdx_vy := ''vy'', PIdx_vz := ''vz'',
       PIdx_ax := ''ax'', PIdx_ay := ''ay'', PIdx_az := ''az''] = spec_particle_varnames"
  by (simp add: PIdx_ncomps_def PIdx_vx_def PIdx_vy_def PIdx_vz_def PIdx_ax_def PIdx_ay_def
      PIdx_az_def spec_particle_varnames_def eval_nat_numeral)

lemma WritePlotFile_cases:
  "WritePlotFile pc geom nstep =
     (if geom = [] then \<lparr>field_arrays = [], calls = []\<rparr>
      else \<lparr>field_arrays = map (\<lambda>g. Some (spec_field_array g)) geom,
            calls =
              [WriteMultiLevelPlotfile (Concatenate ''plt'' nstep 5) (int (length geom))
                 (map (\<lambda>g. Some (spec_field_array g)) geom) [''dummy''] geom 0
                 (replicate (length geom) nstep)
                 (replicate (length geom - 1) (IntVect 2 2 2)),
               Checkpoint (Concatenate ''plt'' nstep 5) ''particle0'' True
                 spec_particle_varnames]\<rparr>)"
proof -
  have v: "(replicate 1 [])[0 := ''dummy''] = [''dummy'']"
    by simp
  have n: "nat (int (length geom)) = length geom" "nat (int (length geom) - 1) = length geom - 1"
    by simp_all
  show ?thesis
    unfolding WritePlotFile_def Let_def v particle_varnames n build_levels_all fill_refRatio_all
    by simp
qed

section \<open>The claims\<close>

text \<open>
  In the statements below the calls are written as \<^verbatim>\<open>WriteParticlesVTK\<close> makes them:
  the counting pass is \<open>count_levels pc (finestLevel pc) 0 0\<close>, the collection pass is
  \<open>collect_levels pc (finestLevel pc) 0 empty_vectors\<close>, and the file is opened under
  the name \<open>Concatenate ''particles_'' nstep 5 @ ''.vtk''\<close>.
\<close>

subsection \<open>C1\<close>

text \<open>
  C1. For every particle population, the point count that \<^verbatim>\<open>WriteParticlesVTK\<close>
  declares on the POINTS line equals the sum, over the levels from 0 to the finest and
  over the tiles of each level, of the tile's particle count, and equals the number of
  position lines of the POINTS block. The file exists when the stream can be opened and
  the sum is not zero: then the counting pass returns the sum, the line after the header
  is \<open>POINTS\<close>, the sum, \<open>double\<close>, and the rows between that line and the empty
  line that ends the block are as many as the sum, one per particle of the aggregated
  sequence.
\<close>

theorem C1_declared_point_count:
  assumes "ofstream_good w (Concatenate ''particles_'' nstep 5 @ ''.vtk'')"
    and "spec_total_count pc \<noteq> 0"
  shows "count_levels pc (finestLevel pc) 0 0 = spec_total_count pc
       \<and> (\<exists>w'. WriteParticlesVTK fmt pc nstep w = Inr w'
             \<and> files w' (Concatenate ''particles_'' nstep 5 @ ''.vtk'') =
                 Some (unlines
                   (header_lines
                    @ [''POINTS '' @ show_int (spec_total_count pc) @ '' double'']
                    @ spec_points_rows fmt (spec_aggregated pc)
                    @ ['''']
                    @ spec_vertices_block (length (spec_aggregated pc))
                    @ spec_point_data_block fmt (spec_aggregated pc))))
       \<and> int (length (spec_points_rows fmt (spec_aggregated pc))) = spec_total_count pc
       \<and> int (length (spec_aggregated pc)) = spec_total_count pc"
proof -
  have "spec_vtk_lines fmt (spec_aggregated pc) =
        header_lines
        @ [''POINTS '' @ show_int (spec_total_count pc) @ '' double'']
        @ spec_points_rows fmt (spec_aggregated pc)
        @ ['''']
        @ spec_vertices_block (length (spec_aggregated pc))
        @ spec_point_data_block fmt (spec_aggregated pc)"
    by (simp add: spec_vtk_lines_def spec_points_block_def length_aggregated)
  with WriteParticlesVTK_written [OF assms, of fmt] show ?thesis
    by (simp add: count_levels_total length_aggregated spec_points_rows_def)
qed

theorem C1_declared_point_count_witness:
  "ofstream_good ex_world (Concatenate ''particles_'' 7 5 @ ''.vtk'')
   \<and> spec_total_count ex_pc \<noteq> 0
   \<and> count_levels ex_pc (finestLevel ex_pc) 0 0 = 3
   \<and> (\<exists>w'. WriteParticlesVTK show_nat ex_pc 7 ex_world = Inr w'
         \<and> files w' (Concatenate ''particles_'' 7 5 @ ''.vtk'') =
             Some (unlines
               (header_lines
                @ [''POINTS 3 double'']
                @ spec_points_rows show_nat (spec_aggregated ex_pc)
                @ ['''']
                @ spec_vertices_block (length (spec_aggregated ex_pc))
                @ spec_point_data_block show_nat (spec_aggregated ex_pc))))
   \<and> length (spec_points_rows show_nat (spec_aggregated ex_pc)) = 3"
proof -
  have good: "ofstream_good ex_world (Concatenate ''particles_'' 7 5 @ ''.vtk'')"
    by (simp add: ex_world_def)
  have total: "spec_total_count ex_pc = 3"
    by code_simp
  then have nonzero: "spec_total_count ex_pc \<noteq> 0"
    by simp
  have three: "show_int 3 = ''3''"
    by code_simp
  from C1_declared_point_count [OF good nonzero, of show_nat] good nonzero show ?thesis
    unfolding total three by auto
qed

subsection \<open>C2\<close>

text \<open>
  C2. For every particle population with at least one particle, in the file written by
  \<^verbatim>\<open>WriteParticlesVTK\<close> the particle at row \<open>i\<close> of the POINTS block is the
  particle whose values are at row \<open>i\<close> of each of the six SCALARS blocks: the nine
  vectors of the collection pass are the nine columns of one sequence, the aggregated
  sequence in (level ascending, tile iteration, in-tile) order, and row \<open>i\<close> of every
  block is printed from particle \<open>i\<close> of that sequence.
\<close>

theorem C2_same_row_in_every_block:
  assumes "ofstream_good w (Concatenate ''particles_'' nstep 5 @ ''.vtk'')"
    and "i < length (spec_aggregated pc)"
  shows "collect_levels pc (finestLevel pc) 0 empty_vectors = spec_columns (spec_aggregated pc)
       \<and> (\<exists>w'. WriteParticlesVTK fmt pc nstep w = Inr w'
             \<and> files w' (Concatenate ''particles_'' nstep 5 @ ''.vtk'') =
                 Some (unlines
                   (header_lines
                    @ [''POINTS '' @ show_int (int (length (spec_aggregated pc))) @ '' double'']
                    @ spec_points_rows fmt (spec_aggregated pc) @ ['''']
                    @ spec_vertices_block (length (spec_aggregated pc))
                    @ [''POINT_DATA '' @ show_int (int (length (spec_aggregated pc)))]
                    @ [''SCALARS vx double 1'', ''LOOKUP_TABLE default'']
                    @ spec_scalar_rows fmt PIdx_vx (spec_aggregated pc) @ ['''']
                    @ [''SCALARS vy double 1'', ''LOOKUP_TABLE default'']
                    @ spec_scalar_rows fmt PIdx_vy (spec_aggregated pc) @ ['''']
                    @ [''SCALARS vz double 1'', ''LOOKUP_TABLE default'']
                    @ spec_scalar_rows fmt PIdx_vz (spec_aggregated pc) @ ['''']
                    @ [''SCALARS ax double 1'', ''LOOKUP_TABLE default'']
                    @ spec_scalar_rows fmt PIdx_ax (spec_aggregated pc) @ ['''']
                    @ [''SCALARS ay double 1'', ''LOOKUP_TABLE default'']
                    @ spec_scalar_rows fmt PIdx_ay (spec_aggregated pc) @ ['''']
                    @ [''SCALARS az double 1'', ''LOOKUP_TABLE default'']
                    @ spec_scalar_rows fmt PIdx_az (spec_aggregated pc) @ [''''])))
       \<and> spec_points_rows fmt (spec_aggregated pc) ! i =
           fmt (pos (spec_aggregated pc ! i) 0) @ '' '' @ fmt (pos (spec_aggregated pc ! i) 1)
           @ '' '' @ fmt (pos (spec_aggregated pc ! i) 2)
       \<and> spec_scalar_rows fmt PIdx_vx (spec_aggregated pc) ! i
           = fmt (rdata (spec_aggregated pc ! i) PIdx_vx)
       \<and> spec_scalar_rows fmt PIdx_vy (spec_aggregated pc) ! i
           = fmt (rdata (spec_aggregated pc ! i) PIdx_vy)
       \<and> spec_scalar_rows fmt PIdx_vz (spec_aggregated pc) ! i
           = fmt (rdata (spec_aggregated pc ! i) PIdx_vz)
       \<and> spec_scalar_rows fmt PIdx_ax (spec_aggregated pc) ! i
           = fmt (rdata (spec_aggregated pc ! i) PIdx_ax)
       \<and> spec_scalar_rows fmt PIdx_ay (spec_aggregated pc) ! i
           = fmt (rdata (spec_aggregated pc ! i) PIdx_ay)
       \<and> spec_scalar_rows fmt PIdx_az (spec_aggregated pc) ! i
           = fmt (rdata (spec_aggregated pc ! i) PIdx_az)"
proof -
  from assms(2) have "spec_total_count pc \<noteq> 0"
    using spec_aggregated_Nil_iff [of pc] by auto
  from WriteParticlesVTK_written [OF assms(1) this, of fmt]
  have "\<exists>w'. WriteParticlesVTK fmt pc nstep w = Inr w'
             \<and> files w' (Concatenate ''particles_'' nstep 5 @ ''.vtk'') =
                 Some (unlines
                   (header_lines
                    @ [''POINTS '' @ show_int (int (length (spec_aggregated pc))) @ '' double'']
                    @ spec_points_rows fmt (spec_aggregated pc) @ ['''']
                    @ spec_vertices_block (length (spec_aggregated pc))
                    @ [''POINT_DATA '' @ show_int (int (length (spec_aggregated pc)))]
                    @ [''SCALARS vx double 1'', ''LOOKUP_TABLE default'']
                    @ spec_scalar_rows fmt PIdx_vx (spec_aggregated pc) @ ['''']
                    @ [''SCALARS vy double 1'', ''LOOKUP_TABLE default'']
                    @ spec_scalar_rows fmt PIdx_vy (spec_aggregated pc) @ ['''']
                    @ [''SCALARS vz double 1'', ''LOOKUP_TABLE default'']
                    @ spec_scalar_rows fmt PIdx_vz (spec_aggregated pc) @ ['''']
                    @ [''SCALARS ax double 1'', ''LOOKUP_TABLE default'']
                    @ spec_scalar_rows fmt PIdx_ax (spec_aggregated pc) @ ['''']
                    @ [''SCALARS ay double 1'', ''LOOKUP_TABLE default'']
                    @ spec_scalar_rows fmt PIdx_ay (spec_aggregated pc) @ ['''']
                    @ [''SCALARS az double 1'', ''LOOKUP_TABLE default'']
                    @ spec_scalar_rows fmt PIdx_az (spec_aggregated pc) @ ['''']))"
    by (simp add: spec_vtk_lines_def spec_points_block_def spec_point_data_block_def
        spec_scalars_block_def)
  moreover from assms(2) have
    "spec_points_rows fmt (spec_aggregated pc) ! i =
       fmt (pos (spec_aggregated pc ! i) 0) @ '' '' @ fmt (pos (spec_aggregated pc ! i) 1)
       @ '' '' @ fmt (pos (spec_aggregated pc ! i) 2)"
    by (simp add: spec_points_rows_def)
  moreover from assms(2) have
    "spec_scalar_rows fmt k (spec_aggregated pc) ! i = fmt (rdata (spec_aggregated pc ! i) k)"
    for k
    by (simp add: spec_scalar_rows_def)
  ultimately show ?thesis
    using collect_levels_aggregated [of pc] by blast
qed

text \<open>
  At the scenario of the spec, row 2 is the particle of level 1: its position is printed
  as \<open>30 31 32\<close>, its attributes as \<open>300\<close> to \<open>305\<close>.
\<close>

theorem C2_same_row_in_every_block_witness:
  "ofstream_good ex_world (Concatenate ''particles_'' 7 5 @ ''.vtk'')
   \<and> 2 < length (spec_aggregated ex_pc)
   \<and> collect_levels ex_pc (finestLevel ex_pc) 0 empty_vectors
       = spec_columns (spec_aggregated ex_pc)
   \<and> spec_points_rows show_nat (spec_aggregated ex_pc) ! 2 = ''30 31 32''
   \<and> spec_scalar_rows show_nat PIdx_vx (spec_aggregated ex_pc) ! 2 = ''300''
   \<and> spec_scalar_rows show_nat PIdx_vy (spec_aggregated ex_pc) ! 2 = ''301''
   \<and> spec_scalar_rows show_nat PIdx_vz (spec_aggregated ex_pc) ! 2 = ''302''
   \<and> spec_scalar_rows show_nat PIdx_ax (spec_aggregated ex_pc) ! 2 = ''303''
   \<and> spec_scalar_rows show_nat PIdx_ay (spec_aggregated ex_pc) ! 2 = ''304''
   \<and> spec_scalar_rows show_nat PIdx_az (spec_aggregated ex_pc) ! 2 = ''305''"
proof -
  have good: "ofstream_good ex_world (Concatenate ''particles_'' 7 5 @ ''.vtk'')"
    by (simp add: ex_world_def)
  have "spec_total_count ex_pc = 3"
    by code_simp
  with length_aggregated [of ex_pc] have row: "2 < length (spec_aggregated ex_pc)"
    by simp
  have digits: "show_nat 30 = ''30''" "show_nat 31 = ''31''" "show_nat 32 = ''32''"
    "show_nat 300 = ''300''" "show_nat 301 = ''301''" "show_nat 302 = ''302''"
    "show_nat 303 = ''303''" "show_nat 304 = ''304''" "show_nat 305 = ''305''"
    by code_simp+
  have vals: "pos (spec_aggregated ex_pc ! 2) 0 = 30" "pos (spec_aggregated ex_pc ! 2) 1 = 31"
    "pos (spec_aggregated ex_pc ! 2) 2 = 32" "rdata (spec_aggregated ex_pc ! 2) PIdx_vx = 300"
    "rdata (spec_aggregated ex_pc ! 2) PIdx_vy = 301"
    "rdata (spec_aggregated ex_pc ! 2) PIdx_vz = 302"
    "rdata (spec_aggregated ex_pc ! 2) PIdx_ax = 303"
    "rdata (spec_aggregated ex_pc ! 2) PIdx_ay = 304"
    "rdata (spec_aggregated ex_pc ! 2) PIdx_az = 305"
    by code_simp+
  from C2_same_row_in_every_block [OF good row, of show_nat] good row show ?thesis
    unfolding vals digits by simp
qed

subsection \<open>C3\<close>

text \<open>
  C3. For every particle population whose total particle count over all levels and tiles
  is zero, \<^verbatim>\<open>WriteParticlesVTK\<close> prints the notice "no particles to write", creates
  no file and returns without a fault: the world after the call is the world before it
  with the notice printed, so its files are the files before the call.
\<close>

theorem C3_zero_particles_skip:
  assumes "spec_total_count pc = 0"
  shows "WriteParticlesVTK fmt pc nstep w =
           Inr (w\<lparr>stdout := stdout w @ ''WriteParticlesVTK: no particles to write.\<newline>''\<rparr>)
       \<and> (\<exists>w'. WriteParticlesVTK fmt pc nstep w = Inr w' \<and> files w' = files w)"
  using assms by (simp add: WriteParticlesVTK_cases spec_aggregated_Nil_iff Print_def)

theorem C3_zero_particles_skip_witness:
  "spec_total_count ex_pc_empty = 0
   \<and> WriteParticlesVTK show_nat ex_pc_empty 0 ex_world =
       Inr (ex_world\<lparr>stdout := ''WriteParticlesVTK: no particles to write.\<newline>''\<rparr>)
   \<and> (\<exists>w'. WriteParticlesVTK show_nat ex_pc_empty 0 ex_world = Inr w'
         \<and> files w' = files ex_world)"
proof -
  have zero: "spec_total_count ex_pc_empty = 0"
    by code_simp
  have "stdout ex_world = []"
    by (simp add: ex_world_def)
  with C3_zero_particles_skip [OF zero, of show_nat 0 ex_world] zero show ?thesis
    by simp
qed

subsection \<open>C4\<close>

text \<open>
  C4. For an empty geometry sequence \<^verbatim>\<open>WritePlotFile\<close> returns at once: it builds no
  field array and calls neither the structured-grid writer nor the particle checkpoint,
  and the result is a value, not a fault. This is the only early exit: the function
  makes no call exactly when the sequence is empty, and for every other sequence it
  makes both calls, the writer first.
\<close>

theorem C4_empty_geometry_no_op:
  "WritePlotFile pc [] nstep = \<lparr>field_arrays = [], calls = []\<rparr>
   \<and> ((calls (WritePlotFile pc geom nstep) = []) = (geom = []))
   \<and> ((field_arrays (WritePlotFile pc geom nstep) = []) = (geom = []))
   \<and> length (calls (WritePlotFile pc geom nstep)) = (if geom = [] then 0 else 2)
   \<and> (\<exists>output_cc refRatio.
        calls (WritePlotFile pc (g # geom) nstep) =
          [WriteMultiLevelPlotfile (Concatenate ''plt'' nstep 5) (int (length (g # geom)))
             output_cc [''dummy''] (g # geom) 0 (replicate (length (g # geom)) nstep) refRatio,
           Checkpoint (Concatenate ''plt'' nstep 5) ''particle0'' True
             [''vx'', ''vy'', ''vz'', ''ax'', ''ay'', ''az'']])"
  by (simp add: WritePlotFile_cases spec_particle_varnames_def)

subsection \<open>C5\<close>

text \<open>
  C5. For every non-empty geometry sequence of \<open>n\<close> levels, \<^verbatim>\<open>WritePlotFile\<close> hands
  the structured-grid writer exactly \<open>n\<close> field arrays, one per level and none of them
  a null pointer, and a refinement-ratio sequence of length \<open>n - 1\<close> whose every entry
  is 2 along every axis; for a single level the ratio sequence is empty.
\<close>

theorem C5_arrays_and_ratios:
  assumes "geom \<noteq> []"
  shows "(\<exists>output_cc refRatio.
            calls (WritePlotFile pc geom nstep) =
              [WriteMultiLevelPlotfile (Concatenate ''plt'' nstep 5) (int (length geom))
                 output_cc [''dummy''] geom 0 (replicate (length geom) nstep) refRatio,
               Checkpoint (Concatenate ''plt'' nstep 5) ''particle0'' True
                 [''vx'', ''vy'', ''vz'', ''ax'', ''ay'', ''az'']]
          \<and> length output_cc = length geom
          \<and> None \<notin> set output_cc
          \<and> output_cc = field_arrays (WritePlotFile pc geom nstep)
          \<and> length refRatio = length geom - 1
          \<and> refRatio = replicate (length geom - 1) (IntVect 2 2 2))
       \<and> (\<exists>output_cc.
            calls (WritePlotFile pc [g] nstep) =
              [WriteMultiLevelPlotfile (Concatenate ''plt'' nstep 5) 1
                 output_cc [''dummy''] [g] 0 [nstep] [],
               Checkpoint (Concatenate ''plt'' nstep 5) ''particle0'' True
                 [''vx'', ''vy'', ''vz'', ''ax'', ''ay'', ''az'']]
          \<and> length output_cc = 1)"
proof -
  have "None \<notin> set (map (\<lambda>g. Some (spec_field_array g)) geom)"
    by auto
  with assms show ?thesis
    by (simp add: WritePlotFile_cases spec_particle_varnames_def)
qed

theorem C5_arrays_and_ratios_witness:
  "ex_geom \<noteq> []
   \<and> (\<exists>output_cc.
        calls (WritePlotFile ex_pc ex_geom 7) =
          [WriteMultiLevelPlotfile ''plt00007'' 2 output_cc [''dummy''] ex_geom 0 [7, 7]
             [IntVect 2 2 2],
           Checkpoint ''plt00007'' ''particle0'' True
             [''vx'', ''vy'', ''vz'', ''ax'', ''ay'', ''az'']]
      \<and> length output_cc = 2
      \<and> None \<notin> set output_cc)"
proof -
  have nonempty: "ex_geom \<noteq> []"
    by (simp add: ex_geom_def)
  have len: "length ex_geom = 2"
    by (simp add: ex_geom_def)
  have name: "Concatenate ''plt'' 7 5 = ''plt00007''"
    by code_simp
  have steps: "replicate 2 (7 :: int) = [7, 7]"
    by (simp add: numeral_2_eq_2)
  from C5_arrays_and_ratios [OF nonempty, of ex_pc 7] nonempty show ?thesis
    unfolding len name by (auto simp add: steps)
qed

subsection \<open>C6\<close>

text \<open>
  C6. If the output file cannot be opened for writing, \<^verbatim>\<open>WriteParticlesVTK\<close> prints
  a notice and ends the call, and no file, partial or whole, is left: the stream is
  opened before anything is written to it, so the world after the call is the world
  before it with one notice printed. The notice is "could not open file" with the name;
  for a population without particles the function has returned before it opens the
  stream, with the notice of C3.
\<close>

theorem C6_open_failure:
  assumes "\<not> ofstream_good w (Concatenate ''particles_'' nstep 5 @ ''.vtk'')"
  shows "WriteParticlesVTK fmt pc nstep w =
           Inr (w\<lparr>stdout := stdout w @
                  (if spec_total_count pc = 0
                   then ''WriteParticlesVTK: no particles to write.\<newline>''
                   else ''WriteParticlesVTK: could not open file ''
                        @ (Concatenate ''particles_'' nstep 5 @ ''.vtk'') @ ''\<newline>'')\<rparr>)
       \<and> (\<exists>w'. WriteParticlesVTK fmt pc nstep w = Inr w' \<and> files w' = files w
             \<and> stdout w' \<noteq> stdout w)"
  using assms by (simp add: WriteParticlesVTK_cases spec_aggregated_Nil_iff Print_def)

theorem C6_open_failure_witness:
  "\<not> ofstream_good ex_world_readonly (Concatenate ''particles_'' 7 5 @ ''.vtk'')
   \<and> spec_total_count ex_pc \<noteq> 0
   \<and> WriteParticlesVTK show_nat ex_pc 7 ex_world_readonly =
       Inr (ex_world_readonly
              \<lparr>stdout := ''WriteParticlesVTK: could not open file particles_00007.vtk\<newline>''\<rparr>)
   \<and> (\<exists>w'. WriteParticlesVTK show_nat ex_pc 7 ex_world_readonly = Inr w'
         \<and> files w' = files ex_world_readonly)"
proof -
  have bad: "\<not> ofstream_good ex_world_readonly (Concatenate ''particles_'' 7 5 @ ''.vtk'')"
    by (simp add: ex_world_readonly_def)
  have total: "spec_total_count ex_pc = 3"
    by code_simp
  have name: "Concatenate ''particles_'' 7 5 = ''particles_00007''"
    by code_simp
  have "stdout ex_world_readonly = []"
    by (simp add: ex_world_readonly_def)
  with C6_open_failure [OF bad, of show_nat ex_pc] bad show ?thesis
    unfolding total name by simp
qed

subsection \<open>C7\<close>

text \<open>
  C7, as the spec states it: the file begins with a three-line format header identifying
  version 3.0, a dataset title, ASCII encoding and the dataset type. At the scenario of
  the spec (three particles, step 7) the first three lines of \<open>particles_00007.vtk\<close>
  are the version, the title and \<open>ASCII\<close>; none of them is the dataset type, which
  is the fourth line.
\<close>

theorem C7_three_line_header_counterexample:
  "take 3 (written_lines (WriteParticlesVTK show_nat ex_pc 7 ex_world) ''particles_00007.vtk'')
     = [''# vtk DataFile Version 3.0'', ''MD particles'', ''ASCII'']
   \<and> ''DATASET POLYDATA''
       \<notin> set (take 3 (written_lines (WriteParticlesVTK show_nat ex_pc 7 ex_world)
                         ''particles_00007.vtk''))
   \<and> written_lines (WriteParticlesVTK show_nat ex_pc 7 ex_world) ''particles_00007.vtk'' ! 3
     = ''DATASET POLYDATA''"
  by code_simp

text \<open>
  C7, amended. For every step index, the point-cloud file written by
  \<^verbatim>\<open>WriteParticlesVTK\<close> is named \<open>particles_\<close>, then the step index in decimal
  padded with zeros on the left to 5 characters (five decimal digits for a step index
  from 0 to 99999), then \<open>.vtk\<close>; and the file begins with a four-line format header:
  the version line with "3.0", the dataset title, \<open>ASCII\<close>, and the dataset type
  \<open>DATASET POLYDATA\<close>.
\<close>

theorem C7_name_and_four_line_header:
  assumes "ofstream_good w (Concatenate ''particles_'' nstep 5 @ ''.vtk'')"
    and "spec_total_count pc \<noteq> 0"
  shows "Concatenate ''particles_'' nstep 5 @ ''.vtk'' =
           ''particles_'' @ replicate (5 - length (show_int nstep)) (CHR ''0'') @ show_int nstep
           @ ''.vtk''
       \<and> (0 \<le> nstep \<and> nstep < 100000 \<longrightarrow>
            length (replicate (5 - length (show_int nstep)) (CHR ''0'') @ show_int nstep) = 5
          \<and> set (replicate (5 - length (show_int nstep)) (CHR ''0'') @ show_int nstep)
              \<subseteq> set ''0123456789'')
       \<and> (\<exists>w'. WriteParticlesVTK fmt pc nstep w = Inr w'
             \<and> files w' (''particles_'' @ replicate (5 - length (show_int nstep)) (CHR ''0'')
                          @ show_int nstep @ ''.vtk'') =
                 Some (''# vtk DataFile Version 3.0\<newline>''
                       @ ''MD particles\<newline>''
                       @ ''ASCII\<newline>''
                       @ ''DATASET POLYDATA\<newline>''
                       @ unlines (spec_points_block fmt (spec_aggregated pc)
                                  @ spec_vertices_block (length (spec_aggregated pc))
                                  @ spec_point_data_block fmt (spec_aggregated pc))))
       \<and> take 4 (written_lines (WriteParticlesVTK fmt pc nstep w)
                   (Concatenate ''particles_'' nstep 5 @ ''.vtk''))
           = [''# vtk DataFile Version 3.0'', ''MD particles'', ''ASCII'', ''DATASET POLYDATA'']"
proof -
  have name: "Concatenate ''particles_'' nstep 5 @ ''.vtk'' =
           ''particles_'' @ replicate (5 - length (show_int nstep)) (CHR ''0'') @ show_int nstep
           @ ''.vtk''"
    by (simp add: Concatenate_def)
  have digits: "length (replicate (5 - length (show_int nstep)) (CHR ''0'') @ show_int nstep) = 5
      \<and> set (replicate (5 - length (show_int nstep)) (CHR ''0'') @ show_int nstep)
          \<subseteq> set ''0123456789''"
    if "0 \<le> nstep" "nstep < 100000"
  proof -
    from that have "set (show_int nstep) \<subseteq> set ''0123456789''"
      using set_show_nat [of "nat nstep"] by (simp add: show_int_def)
    with length_padded [OF that] show ?thesis
      by auto
  qed
  from WriteParticlesVTK_written [OF assms, of fmt]
  obtain w' where w': "WriteParticlesVTK fmt pc nstep w = Inr w'"
    "files w' (Concatenate ''particles_'' nstep 5 @ ''.vtk'') =
       Some (unlines (spec_vtk_lines fmt (spec_aggregated pc)))"
    by blast
  define rest where "rest = spec_points_block fmt (spec_aggregated pc)
     @ spec_vertices_block (length (spec_aggregated pc))
     @ spec_point_data_block fmt (spec_aggregated pc)"
  have lines: "spec_vtk_lines fmt (spec_aggregated pc) =
      ''# vtk DataFile Version 3.0'' # ''MD particles'' # ''ASCII'' # ''DATASET POLYDATA'' # rest"
    by (simp add: spec_vtk_lines_def header_lines_def rest_def)
  have content: "unlines (spec_vtk_lines fmt (spec_aggregated pc)) =
      ''# vtk DataFile Version 3.0\<newline>'' @ ''MD particles\<newline>'' @ ''ASCII\<newline>''
      @ ''DATASET POLYDATA\<newline>'' @ unlines rest"
    unfolding lines by (simp add: unlines_Cons)
  have "lines_of (unlines (spec_vtk_lines fmt (spec_aggregated pc))) =
      ''# vtk DataFile Version 3.0'' # ''MD particles'' # ''ASCII'' # ''DATASET POLYDATA''
      # lines_of (unlines rest)"
    unfolding lines by (simp add: lines_of_unlines_Cons)
  with w' have four: "take 4 (written_lines (WriteParticlesVTK fmt pc nstep w)
                   (Concatenate ''particles_'' nstep 5 @ ''.vtk''))
           = [''# vtk DataFile Version 3.0'', ''MD particles'', ''ASCII'', ''DATASET POLYDATA'']"
    by (simp add: written_lines_def)
  from w' have "\<exists>w'. WriteParticlesVTK fmt pc nstep w = Inr w'
             \<and> files w' (''particles_'' @ replicate (5 - length (show_int nstep)) (CHR ''0'')
                          @ show_int nstep @ ''.vtk'') =
                 Some (''# vtk DataFile Version 3.0\<newline>''
                       @ ''MD particles\<newline>''
                       @ ''ASCII\<newline>''
                       @ ''DATASET POLYDATA\<newline>''
                       @ unlines (spec_points_block fmt (spec_aggregated pc)
                                  @ spec_vertices_block (length (spec_aggregated pc))
                                  @ spec_point_data_block fmt (spec_aggregated pc)))"
    unfolding content name [symmetric] rest_def by blast
  with name digits four show ?thesis
    by blast
qed

theorem C7_name_and_four_line_header_witness:
  "ofstream_good ex_world (Concatenate ''particles_'' 7 5 @ ''.vtk'')
   \<and> spec_total_count ex_pc \<noteq> 0
   \<and> (0 :: int) \<le> 7 \<and> (7 :: int) < 100000
   \<and> Concatenate ''particles_'' 7 5 @ ''.vtk'' = ''particles_00007.vtk''
   \<and> length (replicate (5 - length (show_int 7)) (CHR ''0'') @ show_int 7) = 5
   \<and> take 4 (written_lines (WriteParticlesVTK show_nat ex_pc 7 ex_world)
               (Concatenate ''particles_'' 7 5 @ ''.vtk''))
       = [''# vtk DataFile Version 3.0'', ''MD particles'', ''ASCII'', ''DATASET POLYDATA'']"
proof -
  have good: "ofstream_good ex_world (Concatenate ''particles_'' 7 5 @ ''.vtk'')"
    by (simp add: ex_world_def)
  have "spec_total_count ex_pc = 3"
    by code_simp
  then have nonzero: "spec_total_count ex_pc \<noteq> 0"
    by simp
  have name: "Concatenate ''particles_'' 7 5 @ ''.vtk'' = ''particles_00007.vtk''"
    by code_simp
  have seven: "show_int 7 = ''7''"
    by code_simp
  from C7_name_and_four_line_header [OF good nonzero, of show_nat] good nonzero name
  show ?thesis
    by (simp add: seven)
qed

subsection \<open>C8\<close>

text \<open>
  C8. For every particle population with total count \<open>n \<ge> 1\<close>, the topology block of
  the file written by \<^verbatim>\<open>WriteParticlesVTK\<close> is the line \<open>VERTICES n 2n\<close>, then
  exactly \<open>n\<close> rows, row \<open>i\<close> being \<open>1 i\<close> with \<open>i\<close> counted from zero, then the
  empty line that ends the block.
\<close>

theorem C8_vertices_block:
  assumes "ofstream_good w (Concatenate ''particles_'' nstep 5 @ ''.vtk'')"
    and "1 \<le> spec_total_count pc"
    and "i < length (spec_aggregated pc)"
  shows "(\<exists>w'. WriteParticlesVTK fmt pc nstep w = Inr w'
            \<and> files w' (Concatenate ''particles_'' nstep 5 @ ''.vtk'') =
                Some (unlines
                  (header_lines
                   @ spec_points_block fmt (spec_aggregated pc)
                   @ [''VERTICES '' @ show_int (spec_total_count pc) @ '' ''
                        @ show_int (2 * spec_total_count pc)]
                   @ spec_vertex_rows (length (spec_aggregated pc))
                   @ ['''']
                   @ spec_point_data_block fmt (spec_aggregated pc))))
       \<and> int (length (spec_vertex_rows (length (spec_aggregated pc)))) = spec_total_count pc
       \<and> spec_vertex_rows (length (spec_aggregated pc)) ! i = ''1 '' @ show_int (int i)"
proof -
  from assms(2) have nonzero: "spec_total_count pc \<noteq> 0"
    by simp
  have "spec_vtk_lines fmt (spec_aggregated pc) =
        header_lines
        @ spec_points_block fmt (spec_aggregated pc)
        @ [''VERTICES '' @ show_int (spec_total_count pc) @ '' ''
             @ show_int (2 * spec_total_count pc)]
        @ spec_vertex_rows (length (spec_aggregated pc))
        @ ['''']
        @ spec_point_data_block fmt (spec_aggregated pc)"
    by (simp add: spec_vtk_lines_def spec_vertices_block_def length_aggregated)
  with WriteParticlesVTK_written [OF assms(1) nonzero, of fmt] assms(3) show ?thesis
    by (simp add: spec_vertex_rows_def length_aggregated)
qed

theorem C8_vertices_block_witness:
  "ofstream_good ex_world (Concatenate ''particles_'' 7 5 @ ''.vtk'')
   \<and> 1 \<le> spec_total_count ex_pc
   \<and> 2 < length (spec_aggregated ex_pc)
   \<and> (\<exists>w'. WriteParticlesVTK show_nat ex_pc 7 ex_world = Inr w'
         \<and> files w' (Concatenate ''particles_'' 7 5 @ ''.vtk'') =
             Some (unlines
               (header_lines
                @ spec_points_block show_nat (spec_aggregated ex_pc)
                @ [''VERTICES 3 6'']
                @ spec_vertex_rows (length (spec_aggregated ex_pc))
                @ ['''']
                @ spec_point_data_block show_nat (spec_aggregated ex_pc))))
   \<and> length (spec_vertex_rows (length (spec_aggregated ex_pc))) = 3
   \<and> spec_vertex_rows (length (spec_aggregated ex_pc)) ! 2 = ''1 2''"
proof -
  have good: "ofstream_good ex_world (Concatenate ''particles_'' 7 5 @ ''.vtk'')"
    by (simp add: ex_world_def)
  have total: "spec_total_count ex_pc = 3"
    by code_simp
  then have pos: "1 \<le> spec_total_count ex_pc"
    by simp
  from total length_aggregated [of ex_pc] have row: "2 < length (spec_aggregated ex_pc)"
    by simp
  have digits: "show_int 3 = ''3''" "show_int 6 = ''6''" "show_int 2 = ''2''"
    by code_simp+
  from C8_vertices_block [OF good pos row, of show_nat] good pos row show ?thesis
    unfolding total by (auto simp add: digits)
qed

subsection \<open>C9\<close>

text \<open>
  C9. In \<^verbatim>\<open>WriteParticlesVTK\<close>, after the collection pass each of the nine vectors
  holds exactly \<^verbatim>\<open>np_total\<close> elements, the count of the first pass over the same levels
  and tiles, so every access \<^verbatim>\<open>data[i]\<close> with \<open>0 \<le> i < np_total\<close> of the write loops
  is within bounds: the checked loops of \<open>write_vtk\<close> end without a fault, and so does
  the function.
\<close>

theorem C9_vectors_hold_np_total:
  "int (length (vec_xs (collect_levels pc (finestLevel pc) 0 empty_vectors)))
     = count_levels pc (finestLevel pc) 0 0
   \<and> int (length (vec_ys (collect_levels pc (finestLevel pc) 0 empty_vectors)))
     = count_levels pc (finestLevel pc) 0 0
   \<and> int (length (vec_zs (collect_levels pc (finestLevel pc) 0 empty_vectors)))
     = count_levels pc (finestLevel pc) 0 0
   \<and> int (length (vec_vxs (collect_levels pc (finestLevel pc) 0 empty_vectors)))
     = count_levels pc (finestLevel pc) 0 0
   \<and> int (length (vec_vys (collect_levels pc (finestLevel pc) 0 empty_vectors)))
     = count_levels pc (finestLevel pc) 0 0
   \<and> int (length (vec_vzs (collect_levels pc (finestLevel pc) 0 empty_vectors)))
     = count_levels pc (finestLevel pc) 0 0
   \<and> int (length (vec_axs (collect_levels pc (finestLevel pc) 0 empty_vectors)))
     = count_levels pc (finestLevel pc) 0 0
   \<and> int (length (vec_ays (collect_levels pc (finestLevel pc) 0 empty_vectors)))
     = count_levels pc (finestLevel pc) 0 0
   \<and> int (length (vec_azs (collect_levels pc (finestLevel pc) 0 empty_vectors)))
     = count_levels pc (finestLevel pc) 0 0
   \<and> write_vtk fmt (count_levels pc (finestLevel pc) 0 0)
        (collect_levels pc (finestLevel pc) 0 empty_vectors) \<noteq> None
   \<and> WriteParticlesVTK fmt pc nstep w \<noteq> Inl OutOfBounds
   \<and> (0 \<le> i \<and> i < count_levels pc (finestLevel pc) 0 0 \<longrightarrow>
        Vector_at (vec_xs (collect_levels pc (finestLevel pc) 0 empty_vectors)) i \<noteq> None
      \<and> Vector_at (vec_ys (collect_levels pc (finestLevel pc) 0 empty_vectors)) i \<noteq> None
      \<and> Vector_at (vec_zs (collect_levels pc (finestLevel pc) 0 empty_vectors)) i \<noteq> None
      \<and> Vector_at (vec_vxs (collect_levels pc (finestLevel pc) 0 empty_vectors)) i \<noteq> None
      \<and> Vector_at (vec_vys (collect_levels pc (finestLevel pc) 0 empty_vectors)) i \<noteq> None
      \<and> Vector_at (vec_vzs (collect_levels pc (finestLevel pc) 0 empty_vectors)) i \<noteq> None
      \<and> Vector_at (vec_axs (collect_levels pc (finestLevel pc) 0 empty_vectors)) i \<noteq> None
      \<and> Vector_at (vec_ays (collect_levels pc (finestLevel pc) 0 empty_vectors)) i \<noteq> None
      \<and> Vector_at (vec_azs (collect_levels pc (finestLevel pc) 0 empty_vectors)) i \<noteq> None)"
proof -
  have n: "count_levels pc (finestLevel pc) 0 0 = int (length (spec_aggregated pc))"
    by (simp add: count_levels_total length_aggregated)
  have len: "length (vec_xs (spec_columns ps)) = length ps"
    "length (vec_ys (spec_columns ps)) = length ps"
    "length (vec_zs (spec_columns ps)) = length ps"
    "length (vec_vxs (spec_columns ps)) = length ps"
    "length (vec_vys (spec_columns ps)) = length ps"
    "length (vec_vzs (spec_columns ps)) = length ps"
    "length (vec_axs (spec_columns ps)) = length ps"
    "length (vec_ays (spec_columns ps)) = length ps"
    "length (vec_azs (spec_columns ps)) = length ps" for ps :: "'a Particle list"
    by (simp_all add: spec_columns_def)
  have run: "WriteParticlesVTK fmt pc nstep w \<noteq> Inl OutOfBounds"
    by (simp add: WriteParticlesVTK_cases)
  show ?thesis
    unfolding n collect_levels_aggregated write_vtk_lines len
    using run by (simp add: Vector_at_def len)
qed

theorem C9_vectors_hold_np_total_witness:
  "(0 :: int) \<le> 2 \<and> 2 < count_levels ex_pc (finestLevel ex_pc) 0 0
   \<and> count_levels ex_pc (finestLevel ex_pc) 0 0 = 3
   \<and> length (vec_xs (collect_levels ex_pc (finestLevel ex_pc) 0 empty_vectors)) = 3
   \<and> length (vec_azs (collect_levels ex_pc (finestLevel ex_pc) 0 empty_vectors)) = 3
   \<and> Vector_at (vec_xs (collect_levels ex_pc (finestLevel ex_pc) 0 empty_vectors)) 2 \<noteq> None
   \<and> Vector_at (vec_azs (collect_levels ex_pc (finestLevel ex_pc) 0 empty_vectors)) 2 \<noteq> None
   \<and> WriteParticlesVTK show_nat ex_pc 7 ex_world \<noteq> Inl OutOfBounds"
proof -
  have n: "count_levels ex_pc (finestLevel ex_pc) 0 0 = 3"
    by code_simp
  with C9_vectors_hold_np_total [of ex_pc show_nat 7 ex_world 2] show ?thesis
    by simp
qed

subsection \<open>C10\<close>

text \<open>
  C10. For every level of a non-empty geometry sequence, the field array that
  \<^verbatim>\<open>WritePlotFile\<close> constructs is laid out over a box array of exactly one box, the
  whole index-space domain of the level, with a distribution mapping computed from that
  box array alone: the array of level \<open>lev\<close> is the one constructed from
  \<open>BoxArray_of_Box (Domain (geom ! lev))\<close> and the mapping of that box array, with one
  component and no ghost cells, and set to zero; it is an argument of the call of the
  writer. Nothing else of the simulation is read.
\<close>

theorem C10_single_box_per_level:
  assumes "lev < length geom"
  shows "field_arrays (WritePlotFile pc geom nstep) ! lev =
           Some (setVal 0
                   (MultiFab_new (BoxArray_of_Box (Domain (geom ! lev)))
                      (DistributionMapping (BoxArray_of_Box (Domain (geom ! lev)))) 1 0))
       \<and> (\<exists>m. field_arrays (WritePlotFile pc geom nstep) ! lev = Some m
             \<and> boxArray m = [Domain (geom ! lev)]
             \<and> length (boxArray m) = 1
             \<and> DistributionMap m = DistributionMapping (boxArray m))
       \<and> length (field_arrays (WritePlotFile pc geom nstep)) = length geom
       \<and> (\<exists>pltfile varnames level_steps refRatio.
             calls (WritePlotFile pc geom nstep) ! 0 =
               WriteMultiLevelPlotfile pltfile (int (length geom))
                 (field_arrays (WritePlotFile pc geom nstep)) varnames geom 0 level_steps
                 refRatio)"
proof -
  from assms have "geom \<noteq> []"
    by auto
  with assms show ?thesis
    by (simp add: WritePlotFile_cases build_step spec_field_array_def)
qed

theorem C10_single_box_per_level_witness:
  "1 < length ex_geom
   \<and> Domain (ex_geom ! 1) = Box (IntVect 0 0 0) (IntVect 7 7 7)
   \<and> field_arrays (WritePlotFile ex_pc ex_geom 7) ! 1 =
       Some \<lparr>boxArray = [Box (IntVect 0 0 0) (IntVect 7 7 7)],
             DistributionMap = DistributionMapping [Box (IntVect 0 0 0) (IntVect 7 7 7)],
             nComp = 1, nGrow = 0, cell_value = Some 0\<rparr>
   \<and> length (field_arrays (WritePlotFile ex_pc ex_geom 7)) = 2"
proof -
  have lev: "1 < length ex_geom"
    by (simp add: ex_geom_def)
  have dom: "Domain (ex_geom ! 1) = Box (IntVect 0 0 0) (IntVect 7 7 7)"
    by (simp add: ex_geom_def)
  from C10_single_box_per_level [OF lev, of ex_pc 7] lev dom show ?thesis
    by (simp add: setVal_def MultiFab_new_def BoxArray_of_Box_def ex_geom_def)
qed

end
